theory Spec2Isabelle
  imports Main "HOL-Library.AList" "HOL-Library.Sublist"
begin

section \<open>Python values, exceptions and the outside world\<close>

text \<open>
  The module \<^verbatim>\<open>ploomber/cli/cloud.py\<close> is a thin client: every function reads the
  configuration file, talks to one HTTPS endpoint and returns a string, the raw body or
  the parsed records. The model threads an explicit world (configuration file,
  module-level \<^verbatim>\<open>headers\<close> dictionary, and the list of effects performed so far)
  through every function, and returns a raised exception as \<open>Inl\<close>.

  Values that \<^verbatim>\<open>json.loads\<close> produces and \<^verbatim>\<open>json.dumps\<close> consumes. \<open>'n\<close> is the
  type of Python numbers (\<^verbatim>\<open>int\<close> and \<^verbatim>\<open>float\<close>); it stays abstract.
  A dictionary is an association list in insertion order.
\<close>

datatype 'n pyval =
    PNone
  | PBool bool
  | PNum 'n
  | PStr string
  | PList "'n pyval list"
  | PDict "(string \<times> 'n pyval) list"

text \<open>Python truthiness (\<^verbatim>\<open>if dag:\<close>).\<close>

fun truthy :: "('n::zero) pyval \<Rightarrow> bool" where
  "truthy PNone = False"
| "truthy (PBool b) = b"
| "truthy (PNum n) = (n \<noteq> 0)"
| "truthy (PStr s) = (s \<noteq> [])"
| "truthy (PList xs) = (xs \<noteq> [])"
| "truthy (PDict d) = (d \<noteq> [])"

text \<open>
  An argument that is \<^verbatim>\<open>None\<close> or a string: \<open>truthy_str x = None\<close> is Python's
  \<^verbatim>\<open>not x\<close>, and otherwise the non-empty string is returned.
\<close>

fun truthy_str :: "string option \<Rightarrow> string option" where
  "truthy_str None = None"
| "truthy_str (Some s) = (if s = [] then None else Some s)"

text \<open>\<^verbatim>\<open>"{}".format(x)\<close> for \<^verbatim>\<open>x\<close> a string or \<^verbatim>\<open>None\<close>.\<close>

fun format_opt :: "string option \<Rightarrow> string" where
  "format_opt None = ''None''"
| "format_opt (Some s) = s"

text \<open>
  Exception classes below \<^verbatim>\<open>Exception\<close>. \<open>JSONDecodeError\<close> and
  \<open>UnicodeDecodeError\<close> derive from \<open>ValueError\<close>; \<open>Other_Exception\<close> is any
  other class that derives from \<^verbatim>\<open>Exception\<close> and not from \<^verbatim>\<open>ValueError\<close>.
  An exception object carries its class, \<^verbatim>\<open>str(e)\<close> and \<^verbatim>\<open>str(e.args)\<close>.
\<close>

datatype exc_class =
    JSONDecodeError
  | UnicodeDecodeError
  | ValueError
  | TypeError
  | KeyError
  | OverflowError
  | UnboundLocalError
  | OSError
  | HTTPException
  | Other_Exception string

datatype exception = Exception (cls: exc_class) (str_e: string) (str_args: string)

fun is_ValueError :: "exc_class \<Rightarrow> bool" where
  "is_ValueError JSONDecodeError = True"
| "is_ValueError UnicodeDecodeError = True"
| "is_ValueError ValueError = True"
| "is_ValueError _ = False"

text \<open>
  What a call of arbitrary user code can raise: an instance of \<^verbatim>\<open>Exception\<close>, or one
  of the classes that derive from \<^verbatim>\<open>BaseException\<close> only, which
  \<^verbatim>\<open>except Exception\<close> does not catch. The library calls of this module
  (\<^verbatim>\<open>http.client\<close>, \<^verbatim>\<open>json\<close>, \<^verbatim>\<open>float\<close>, \<^verbatim>\<open>datetime\<close>) raise instances of
  \<^verbatim>\<open>Exception\<close> only; signals delivered asynchronously are outside the model.
\<close>

datatype base_exception =
    Exc exception
  | SystemExit string
  | KeyboardInterrupt
  | GeneratorExit

datatype http_verb = GET | POST | DELETE

datatype hval = HStr string | HBool bool

text \<open>\<^verbatim>\<open>conn.request(verb, url, body=..., headers=...)\<close>.\<close>

datatype request = Request http_verb string "string option" "(string \<times> hval) list"

text \<open>What \<^verbatim>\<open>write_pipeline\<close> and \<^verbatim>\<open>delete_pipeline\<close> return: a \<^verbatim>\<open>str\<close> or the \<^verbatim>\<open>bytes\<close> read.\<close>

datatype reply = Str string | Bytes string

text \<open>What \<^verbatim>\<open>get_pipeline\<close> returns: a \<^verbatim>\<open>str\<close> or the parsed, updated response.\<close>

datatype 'n fetched = Message string | Pipeline "'n pyval"

text \<open>
  The effects, in the order they happen. \<open>Called_write_pipeline\<close> and \<open>Uuid4\<close> are
  ghost events: the first records an entry into \<^verbatim>\<open>_write_pipeline\<close> with its five
  arguments, the second the identifier drawn. \<open>Connect\<close> is the construction of
  \<^verbatim>\<open>HTTPSConnection(CLOUD_APP_URL, timeout=3)\<close>, which opens no socket yet and is taken
  not to raise; \<open>Sent\<close> is the call of \<^verbatim>\<open>conn.request\<close>, \<open>Closed\<close> that of
  \<^verbatim>\<open>conn.close()\<close>; \<open>Warned\<close> is \<^verbatim>\<open>warnings.warn\<close> under the default filters,
  \<open>Echoed\<close> is \<^verbatim>\<open>click.secho\<close>.
\<close>

datatype 'n event =
    Uuid4 string
  | Called_write_pipeline "string option" "string option" "string option" "string option" "'n pyval"
  | Connect string nat
  | Sent request
  | Closed
  | Warned string
  | Echoed string
  | Conf_updated "(string \<times> string) list"

text \<open>
  The collaborators outside the module, as parameters. \<open>net\<close> answers a request (the
  three calls \<^verbatim>\<open>conn.request\<close>, \<^verbatim>\<open>conn.getresponse\<close>, \<^verbatim>\<open>.read()\<close>) with the body or
  with the exception raised, and may depend on everything that happened before;
  \<open>uuid4\<close> is \<^verbatim>\<open>str(uuid.uuid4())\<close>; \<open>loads\<close> and \<open>dumps\<close> are \<^verbatim>\<open>json.loads\<close> and
  \<^verbatim>\<open>json.dumps\<close>; \<open>repr_bytes\<close> is \<^verbatim>\<open>str\<close> of a \<^verbatim>\<open>bytes\<close> object; \<open>float_num\<close>,
  \<open>float_bool\<close> and \<open>float_str\<close> are \<^verbatim>\<open>float\<close> on a number, a boolean and a string
  (\<open>None\<close>: the string is not a number, \<^verbatim>\<open>ValueError\<close>); \<open>fromtimestamp\<close> is
  \<^verbatim>\<open>datetime.fromtimestamp\<close>, \<open>strftime\<close> is \<^verbatim>\<open>dt.strftime('%b %d, %Y at %H:%M')\<close>,
  \<open>naturaltime\<close> is \<^verbatim>\<open>humanize.naturaltime\<close>; \<open>builtin_text\<close> gives \<^verbatim>\<open>str(e)\<close> and
  \<^verbatim>\<open>str(e.args)\<close> of an exception the interpreter raises itself.
\<close>

record ('n, 'dt) env =
  net :: "'n event list \<Rightarrow> request \<Rightarrow> exception + string"
  uuid4 :: "'n event list \<Rightarrow> string"
  loads :: "string \<Rightarrow> exception + 'n pyval"
  dumps :: "'n pyval \<Rightarrow> exception + string"
  repr_bytes :: "string \<Rightarrow> string"
  float_num :: "'n \<Rightarrow> exception + 'n"
  float_bool :: "bool \<Rightarrow> 'n"
  float_str :: "string \<Rightarrow> 'n option"
  fromtimestamp :: "'n \<Rightarrow> exception + 'dt"
  strftime :: "'dt \<Rightarrow> string"
  naturaltime :: "'dt \<Rightarrow> string"
  builtin_text :: "exc_class \<Rightarrow> string \<times> string"

record 'n world =
  conf :: "(string \<times> string) list"
  headers :: "(string \<times> hval) list"
  trace :: "'n event list"

definition emit :: "'n event \<Rightarrow> 'n world \<Rightarrow> 'n world" where
  "emit e s = s\<lparr>trace := trace s @ [e]\<rparr>"

definition builtin :: "('n, 'dt) env \<Rightarrow> exc_class \<Rightarrow> exception" where
  "builtin env c = Exception c (fst (builtin_text env c)) (snd (builtin_text env c))"

definition CLOUD_APP_URL :: string where
  "CLOUD_APP_URL = ''ggeheljnx2.execute-api.us-east-1.amazonaws.com''"

definition PIPELINES_RESOURCE :: string where
  "PIPELINES_RESOURCE = ''/prod/pipelines''"

text \<open>The module-level \<^verbatim>\<open>headers = {'Content-type': 'application/json'}\<close>.\<close>

definition initial_headers :: "(string \<times> hval) list" where
  "initial_headers = [(''Content-type'', HStr ''application/json'')]"

section \<open>Key management\<close>

text \<open>
  Modelled from the spec: \<^verbatim>\<open>read_conf_file\<close> and \<^verbatim>\<open>update_conf_file\<close> of
  \<^verbatim>\<open>ploomber.telemetry.telemetry\<close> are not part of the source at hand. The
  configuration file is a key-value store; reading returns its content, updating
  persists the given entries.
\<close>

definition read_conf_file :: "'n world \<Rightarrow> (string \<times> string) list" where
  "read_conf_file s = conf s"

definition update_conf_file :: "(string \<times> string) list \<Rightarrow> 'n world \<Rightarrow> 'n world" where
  "update_conf_file d s =
     emit (Conf_updated d) (s\<lparr>conf := fold (\<lambda>(k, v). AList.update k v) d (conf s)\<rparr>)"

text \<open>\<^verbatim>\<open>get_key\<close>: \<^verbatim>\<open>conf.get('cloud_key', None)\<close>.\<close>

definition get_key :: "'n world \<Rightarrow> string option" where
  "get_key s = map_of (read_conf_file s) ''cloud_key''"

definition malformed_warning :: string where
  "malformed_warning =
     ''The API key is malformed.'' @ [CHR 0x0A] @
     ''Please validate your key or contact the admin'' @ [CHR 0x0A]"

text \<open>
  \<^verbatim>\<open>_set_key\<close>, which \<^verbatim>\<open>set_key\<close> calls; it returns \<^verbatim>\<open>None\<close> on both paths, so the
  model returns the world only.
\<close>

definition private_set_key :: "string option \<Rightarrow> 'n world \<Rightarrow> 'n world" where
  "private_set_key user_key s =
     (case truthy_str user_key of
        None \<Rightarrow> emit (Warned malformed_warning) s
      | Some k \<Rightarrow>
          if length k \<noteq> 22 then emit (Warned malformed_warning) s
          else emit (Echoed (''Key was stored '' @ k))
                 (update_conf_file [(''cloud_key'', k)] s))"

definition set_key :: "string option \<Rightarrow> 'n world \<Rightarrow> 'n world" where
  "set_key user_key s = private_set_key user_key s"

section \<open>Fetching pipelines\<close>

text \<open>\<^verbatim>\<open>float(timestamp)\<close> on a value that is not \<^verbatim>\<open>None\<close>.\<close>

fun py_float :: "('n, 'dt) env \<Rightarrow> 'n pyval \<Rightarrow> exception + 'n" where
  "py_float env (PNum n) = float_num env n"
| "py_float env (PBool b) = Inr (float_bool env b)"
| "py_float env (PStr s) =
     (case float_str env s of None \<Rightarrow> Inl (builtin env ValueError) | Some f \<Rightarrow> Inr f)"
| "py_float env PNone = Inl (builtin env TypeError)"
| "py_float env (PList xs) = Inl (builtin env TypeError)"
| "py_float env (PDict d) = Inl (builtin env TypeError)"

text \<open>
  \<^verbatim>\<open>get_last_run\<close>: the \<^verbatim>\<open>try\<close> covers the conversion, the construction of the
  date and the formatting; \<^verbatim>\<open>except ValueError\<close> returns the argument, every other
  exception leaves the function.
\<close>

definition get_last_run :: "('n, 'dt) env \<Rightarrow> 'n pyval \<Rightarrow> exception + 'n pyval" where
  "get_last_run env timestamp =
     (let attempt =
            (if timestamp \<noteq> PNone then
               (case py_float env timestamp of
                  Inl e \<Rightarrow> Inl e
                | Inr f \<Rightarrow>
                    (case fromtimestamp env f of
                       Inl e \<Rightarrow> Inl e
                     | Inr dt \<Rightarrow>
                         (let date_h = strftime env dt;
                              time_h = naturaltime env dt
                          in Inr (PStr (time_h @ '' ('' @ date_h @ '')'')))))
             else Inr (PStr ''Has not been run''))
      in case attempt of
           Inl e \<Rightarrow> if is_ValueError (cls e) then Inr timestamp else Inl e
         | Inr last_run \<Rightarrow> Inr last_run)"

text \<open>
  One round of \<^verbatim>\<open>item['updated'] = get_last_run(item['updated'])\<close>: the subscript
  needs a dictionary (\<^verbatim>\<open>TypeError\<close> otherwise) that has the key (\<^verbatim>\<open>KeyError\<close>
  otherwise).
\<close>

fun update_item :: "('n, 'dt) env \<Rightarrow> 'n pyval \<Rightarrow> exception + 'n pyval" where
  "update_item env (PDict d) =
     (case map_of d ''updated'' of
        None \<Rightarrow> Inl (builtin env KeyError)
      | Some v \<Rightarrow>
          (case get_last_run env v of
             Inl e \<Rightarrow> Inl e
           | Inr v' \<Rightarrow> Inr (PDict (AList.update ''updated'' v' d))))"
| "update_item env _ = Inl (builtin env TypeError)"

text \<open>The loop over a list: it stops at the first exception.\<close>

fun update_items :: "('n, 'dt) env \<Rightarrow> 'n pyval list \<Rightarrow> exception + 'n pyval list" where
  "update_items env [] = Inr []"
| "update_items env (item # rest) =
     (case update_item env item of
        Inl e \<Rightarrow> Inl e
      | Inr item' \<Rightarrow>
          (case update_items env rest of
             Inl e \<Rightarrow> Inl e
           | Inr rest' \<Rightarrow> Inr (item' # rest')))"

text \<open>
  \<^verbatim>\<open>for item in pipeline\<close> on whatever \<^verbatim>\<open>json.loads\<close> returned: a dictionary and a
  string iterate over strings, whose subscript by \<^verbatim>\<open>'updated'\<close> is a
  \<^verbatim>\<open>TypeError\<close>; \<^verbatim>\<open>None\<close>, booleans and numbers are not iterable.
\<close>

fun update_pipeline :: "('n, 'dt) env \<Rightarrow> 'n pyval \<Rightarrow> exception + 'n pyval" where
  "update_pipeline env (PList items) =
     (case update_items env items of Inl e \<Rightarrow> Inl e | Inr items' \<Rightarrow> Inr (PList items'))"
| "update_pipeline env (PDict d) = (if d = [] then Inr (PDict d) else Inl (builtin env TypeError))"
| "update_pipeline env (PStr s) = (if s = [] then Inr (PStr s) else Inl (builtin env TypeError))"
| "update_pipeline env _ = Inl (builtin env TypeError)"

text \<open>The local \<^verbatim>\<open>headers\<close> dictionary of \<^verbatim>\<open>get_pipeline\<close>.\<close>

definition get_headers :: "string \<Rightarrow> string option \<Rightarrow> bool option \<Rightarrow> (string \<times> hval) list" where
  "get_headers key pipeline_id verbose =
     (let h0 = [(''api_key'', HStr key)];
          h1 = (case truthy_str pipeline_id of
                  None \<Rightarrow> h0
                | Some p \<Rightarrow> AList.update ''pipeline_id'' (HStr p) h0);
          h2 = (if verbose = Some True then AList.update ''verbose'' (HBool True) h1 else h1)
      in h2)"

text \<open>
  The body of the \<^verbatim>\<open>try\<close> in \<^verbatim>\<open>get_pipeline\<close>. Besides the outcome it returns
  \<^verbatim>\<open>content\<close> when the variable has been assigned, since the handler reads it.
\<close>

definition get_pipeline_try ::
  "('n, 'dt) env \<Rightarrow> string \<Rightarrow> string option \<Rightarrow> bool option \<Rightarrow> 'n world
     \<Rightarrow> (exception + 'n pyval) \<times> string option \<times> 'n world" where
  "get_pipeline_try env key pipeline_id verbose s =
     (let req = Request GET PIPELINES_RESOURCE None (get_headers key pipeline_id verbose);
          s' = emit (Sent req) s
      in case net env (trace s) req of
           Inl e \<Rightarrow> (Inl e, None, s')
         | Inr content \<Rightarrow>
             (case loads env content of
                Inl e \<Rightarrow> (Inl e, Some content, s')
              | Inr pipeline \<Rightarrow> (update_pipeline env pipeline, Some content, s')))"

text \<open>
  \<^verbatim>\<open>get_pipeline\<close>. The handler catches \<^verbatim>\<open>JSONDecodeError\<close> only and formats
  \<^verbatim>\<open>content\<close>; were the variable unassigned, reading it would raise
  \<^verbatim>\<open>UnboundLocalError\<close>. \<^verbatim>\<open>finally\<close> closes the connection. The decorator
  \<^verbatim>\<open>telemetry.log_call\<close> is outside the module and not modelled.
\<close>

definition get_pipeline ::
  "('n, 'dt) env \<Rightarrow> string option \<Rightarrow> bool option \<Rightarrow> 'n world
     \<Rightarrow> (exception + 'n fetched) \<times> 'n world" where
  "get_pipeline env pipeline_id verbose s =
     (let key = get_key s in
      case truthy_str key of
        None \<Rightarrow> (Inr (Message (''No cloud API Key was found: '' @ format_opt key)), s)
      | Some k \<Rightarrow>
          (let s1 = emit (Connect CLOUD_APP_URL 3) s;
               (r, content, s2) = get_pipeline_try env k pipeline_id verbose s1;
               r' = (case r of
                       Inr pipeline \<Rightarrow> Inr (Pipeline pipeline)
                     | Inl e \<Rightarrow>
                         if cls e = JSONDecodeError then
                           (case content of
                              Some c \<Rightarrow>
                                Inr (Message (''Issue fetching pipeline '' @ repr_bytes env c))
                            | None \<Rightarrow> Inl (builtin env UnboundLocalError))
                         else Inl e)
           in (r', emit Closed s2)))"

section \<open>Writing and deleting pipelines\<close>

text \<open>The body dictionary of the POST, in insertion order.\<close>

definition write_body ::
  "string \<Rightarrow> string \<Rightarrow> string option \<Rightarrow> string option \<Rightarrow> ('n::zero) pyval
     \<Rightarrow> (string \<times> 'n pyval) list" where
  "write_body pipeline_id status log pipeline_name dag =
     (let b0 = [(''pipeline_id'', PStr pipeline_id), (''status'', PStr status)];
          b1 = (case truthy_str pipeline_name of
                  None \<Rightarrow> b0
                | Some n \<Rightarrow> AList.update ''pipeline_name'' (PStr n) b0);
          b2 = (case truthy_str log of
                  None \<Rightarrow> b1
                | Some l \<Rightarrow> AList.update ''log'' (PStr l) b1);
          b3 = (if truthy dag then AList.update ''dag'' dag b2 else b2)
      in b3)"

text \<open>
  The body of the \<^verbatim>\<open>try\<close> in \<^verbatim>\<open>_write_pipeline\<close>: it stores the key in the
  module-level \<^verbatim>\<open>headers\<close>, serialises the body and sends the request with that
  same dictionary as headers.
\<close>

definition write_pipeline_try ::
  "('n::zero, 'dt) env \<Rightarrow> string \<Rightarrow> string \<Rightarrow> string \<Rightarrow> string option \<Rightarrow> string option
     \<Rightarrow> 'n pyval \<Rightarrow> 'n world \<Rightarrow> (exception + reply) \<times> 'n world" where
  "write_pipeline_try env key pipeline_id status log pipeline_name dag s =
     (let s1 = s\<lparr>headers := AList.update ''api_key'' (HStr key) (headers s)\<rparr>;
          body = PDict (write_body pipeline_id status log pipeline_name dag)
      in case dumps env body of
           Inl e \<Rightarrow> (Inl e, s1)
         | Inr txt \<Rightarrow>
             (let req = Request POST PIPELINES_RESOURCE (Some txt) (headers s1);
                  s2 = emit (Sent req) s1
              in case net env (trace s1) req of
                   Inl e \<Rightarrow> (Inl e, s2)
                 | Inr content \<Rightarrow> (Inr (Bytes content), s2)))"

text \<open>
  \<^verbatim>\<open>_write_pipeline\<close>: the three validations in the order of the source, then the
  request under \<^verbatim>\<open>try\<close>, \<^verbatim>\<open>except Exception\<close>, \<^verbatim>\<open>finally\<close>.
\<close>

definition private_write_pipeline ::
  "('n::zero, 'dt) env \<Rightarrow> string option \<Rightarrow> string option \<Rightarrow> string option \<Rightarrow> string option
     \<Rightarrow> 'n pyval \<Rightarrow> 'n world \<Rightarrow> (exception + reply) \<times> 'n world" where
  "private_write_pipeline env pipeline_id status log pipeline_name dag s0 =
     (let s = emit (Called_write_pipeline pipeline_id status log pipeline_name dag) s0;
          key = get_key s
      in case truthy_str key of
           None \<Rightarrow> (Inr (Str (''No cloud API Key was found: '' @ format_opt key)), s)
         | Some k \<Rightarrow>
             (case truthy_str pipeline_id of
                None \<Rightarrow> (Inr (Str (''No input pipeline_id: '' @ format_opt key)), s)
              | Some pid \<Rightarrow>
                  (case truthy_str status of
                     None \<Rightarrow> (Inr (Str (''No input pipeline status: '' @ format_opt key)), s)
                   | Some st \<Rightarrow>
                       (let s1 = emit (Connect CLOUD_APP_URL 3) s;
                            (r, s2) = write_pipeline_try env k pid st log pipeline_name dag s1;
                            r' = (case r of
                                    Inr content \<Rightarrow> Inr content
                                  | Inl e \<Rightarrow> Inr (Str (''Error fetching pipeline '' @ str_e e)))
                        in (r', emit Closed s2)))))"

definition write_pipeline ::
  "('n::zero, 'dt) env \<Rightarrow> string option \<Rightarrow> string option \<Rightarrow> string option \<Rightarrow> string option
     \<Rightarrow> 'n pyval \<Rightarrow> 'n world \<Rightarrow> (exception + reply) \<times> 'n world" where
  "write_pipeline env pipeline_id status log pipeline_name dag s =
     private_write_pipeline env pipeline_id status log pipeline_name dag s"

definition delete_pipeline_try ::
  "('n, 'dt) env \<Rightarrow> string \<Rightarrow> string \<Rightarrow> 'n world \<Rightarrow> (exception + reply) \<times> 'n world" where
  "delete_pipeline_try env key pipeline_id s =
     (let s1 = s\<lparr>headers := AList.update ''api_key'' (HStr key) (headers s)\<rparr>;
          s2 = s1\<lparr>headers := AList.update ''pipeline_id'' (HStr pipeline_id) (headers s1)\<rparr>;
          req = Request DELETE PIPELINES_RESOURCE None (headers s2);
          s3 = emit (Sent req) s2
      in case net env (trace s2) req of
           Inl e \<Rightarrow> (Inl e, s3)
         | Inr content \<Rightarrow> (Inr (Bytes content), s3))"

definition delete_pipeline ::
  "('n, 'dt) env \<Rightarrow> string option \<Rightarrow> 'n world \<Rightarrow> (exception + reply) \<times> 'n world" where
  "delete_pipeline env pipeline_id s =
     (let key = get_key s
      in case truthy_str key of
           None \<Rightarrow> (Inr (Str (''No cloud API Key was found: '' @ format_opt key)), s)
         | Some k \<Rightarrow>
             (case truthy_str pipeline_id of
                None \<Rightarrow> (Inr (Str (''No input pipeline_id: '' @ format_opt key)), s)
              | Some pid \<Rightarrow>
                  (let s1 = emit (Connect CLOUD_APP_URL 3) s;
                       (r, s2) = delete_pipeline_try env k pid s1;
                       r' = (case r of
                               Inr content \<Rightarrow> Inr content
                             | Inl e \<Rightarrow> Inr (Str (''Issue deleting pipeline '' @ str_e e)))
                   in (r', emit Closed s2))))"

section \<open>The lifecycle decorator\<close>

text \<open>\<^verbatim>\<open>str(...)\<close> of what \<^verbatim>\<open>_write_pipeline\<close> returned.\<close>

fun py_str :: "('n, 'dt) env \<Rightarrow> reply \<Rightarrow> string" where
  "py_str env (Str s) = s"
| "py_str env (Bytes b) = repr_bytes env b"

text \<open>\<^verbatim>\<open>if 'Error' in res: warnings.warn(res)\<close>.\<close>

definition warn_on_error :: "string \<Rightarrow> 'n world \<Rightarrow> 'n world" where
  "warn_on_error res s = (if sublist ''Error'' res then emit (Warned res) s else s)"

text \<open>
  The statement pair that the wrapper runs three times:
  \<^verbatim>\<open>res = str(_write_pipeline(pipeline_id=pid, status=..., ...))\<close> and the warning. An
  exception out of \<^verbatim>\<open>_write_pipeline\<close> would leave the pair at once.
\<close>

definition logged_write ::
  "('n::zero, 'dt) env \<Rightarrow> string \<Rightarrow> string \<Rightarrow> string option \<Rightarrow> 'n pyval \<Rightarrow> 'n world
     \<Rightarrow> exception option \<times> 'n world" where
  "logged_write env pid status log dag s =
     (case private_write_pipeline env (Some pid) (Some status) log None dag s of
        (Inl e, s') \<Rightarrow> (Some e, s')
      | (Inr r, s') \<Rightarrow> (None, warn_on_error (py_str env r) s'))"

text \<open>
  The world in which the wrapper invokes the wrapped function: the identifier has been
  drawn and the \<^verbatim>\<open>started\<close> write has been made.
\<close>

definition before_call :: "('n::zero, 'dt) env \<Rightarrow> 'n world \<Rightarrow> 'n world" where
  "before_call env s0 =
     (let pid = uuid4 env (trace s0)
      in snd (logged_write env pid ''started'' None PNone (emit (Uuid4 pid) s0)))"

text \<open>
  \<^verbatim>\<open>cloud_wrapper(payload)(func)(*args, **kwargs)\<close>. The wrapped function is any
  computation on the world; with \<^verbatim>\<open>payload\<close> it receives the fresh empty dictionary
  first. \<^verbatim>\<open>parse_dag\<close> of \<^verbatim>\<open>ploomber.telemetry.telemetry\<close> is a parameter.
\<close>

definition cloud_wrapper ::
  "('n::zero, 'dt) env \<Rightarrow> ('r \<Rightarrow> 'n pyval) \<Rightarrow> bool
     \<Rightarrow> ((string \<times> 'n pyval) list option \<Rightarrow> 'a \<Rightarrow> 'n world \<Rightarrow> (base_exception + 'r) \<times> 'n world)
     \<Rightarrow> 'a \<Rightarrow> 'n world \<Rightarrow> (base_exception + 'r) \<times> 'n world" where
  "cloud_wrapper env parse_dag payload func args s0 =
     (let pid = uuid4 env (trace s0)
      in case logged_write env pid ''started'' None PNone (emit (Uuid4 pid) s0) of
           (Some e, s1) \<Rightarrow> (Inl (Exc e), s1)
         | (None, s1) \<Rightarrow>
             (case func (if payload then Some [] else None) args s1 of
                (Inl raised, s2) \<Rightarrow>
                  (case raised of
                     Exc e \<Rightarrow>
                       (case logged_write env pid ''error'' (Some (str_args e)) PNone s2 of
                          (Some e', s3) \<Rightarrow> (Inl (Exc e'), s3)
                        | (None, s3) \<Rightarrow> (Inl (Exc e), s3))
                   | _ \<Rightarrow> (Inl raised, s2))
              | (Inr result, s2) \<Rightarrow>
                  (let dag = parse_dag result
                   in case logged_write env pid ''finished'' None dag s2 of
                        (Some e', s3) \<Rightarrow> (Inl (Exc e'), s3)
                      | (None, s3) \<Rightarrow> (Inr result, s3))))"

text \<open>The last statement of the module, run when it is imported, after \<^verbatim>\<open>headers\<close> is bound.\<close>

definition module_import ::
  "('n, 'dt) env \<Rightarrow> 'n world \<Rightarrow> (exception + 'n fetched) \<times> 'n world" where
  "module_import env s =
     get_pipeline env (Some ''9f9e18e0-d027-4827-bd4d-1908f294bca2'') (Some False)
       (s\<lparr>headers := initial_headers\<rparr>)"

section \<open>Observations on the list of effects\<close>

text \<open>The arguments of the entries into \<^verbatim>\<open>_write_pipeline\<close>, in order.\<close>

fun write_calls ::
  "'n event list
     \<Rightarrow> (string option \<times> string option \<times> string option \<times> string option \<times> 'n pyval) list" where
  "write_calls [] = []"
| "write_calls (Called_write_pipeline p st l n d # es) = (p, st, l, n, d) # write_calls es"
| "write_calls (_ # es) = write_calls es"

text \<open>The requests handed to a connection, in order, and the connections opened.\<close>

fun sent_requests :: "'n event list \<Rightarrow> request list" where
  "sent_requests [] = []"
| "sent_requests (Sent r # es) = r # sent_requests es"
| "sent_requests (_ # es) = sent_requests es"

fun connections :: "'n event list \<Rightarrow> nat" where
  "connections [] = 0"
| "connections (Connect h t # es) = Suc (connections es)"
| "connections (_ # es) = connections es"

text \<open>The configuration writes, in order.\<close>

fun conf_writes :: "'n event list \<Rightarrow> (string \<times> string) list list" where
  "conf_writes [] = []"
| "conf_writes (Conf_updated d # es) = d # conf_writes es"
| "conf_writes (_ # es) = conf_writes es"

text \<open>The set of keys the specification accepts: non-empty and exactly 22 characters.\<close>

definition valid_key :: "string option \<Rightarrow> bool" where
  "valid_key user_key = (case user_key of None \<Rightarrow> False | Some k \<Rightarrow> k \<noteq> [] \<and> length k = 22)"

section \<open>Sequences of calls into the module\<close>

datatype 'n api_call =
    Call_get_key
  | Call_set_key "string option"
  | Call_get_pipeline "string option" "bool option"
  | Call_write_pipeline "string option" "string option" "string option" "string option" "'n pyval"
  | Call_delete_pipeline "string option"

fun run_call :: "('n::zero, 'dt) env \<Rightarrow> 'n api_call \<Rightarrow> 'n world \<Rightarrow> 'n world" where
  "run_call env Call_get_key s = s"
| "run_call env (Call_set_key k) s = set_key k s"
| "run_call env (Call_get_pipeline p v) s = snd (get_pipeline env p v s)"
| "run_call env (Call_write_pipeline p st l n d) s = snd (write_pipeline env p st l n d s)"
| "run_call env (Call_delete_pipeline p) s = snd (delete_pipeline env p s)"

definition run_calls :: "('n::zero, 'dt) env \<Rightarrow> 'n api_call list \<Rightarrow> 'n world \<Rightarrow> 'n world" where
  "run_calls env cs s = fold (run_call env) cs s"

fun is_delete :: "'n api_call \<Rightarrow> bool" where
  "is_delete (Call_delete_pipeline p) = True"
| "is_delete _ = False"

section \<open>A concrete environment for evaluation\<close>

text \<open>
  A server that answers every request with the given outcome, a decoder that knows the
  given body only, and timestamps that are representable up to the year 9999.
\<close>

definition stub_env ::
  "(exception + string) \<Rightarrow> (string \<times> int pyval) \<Rightarrow> (int, int) env" where
  "stub_env answer known =
     \<lparr> net = (\<lambda>history req. answer),
       uuid4 = (\<lambda>history. ''1b4e28ba-2fa1-4d3b-a3f5-ef19b5a7633b''),
       loads = (\<lambda>content. if content = fst known then Inr (snd known)
                           else Inl (Exception JSONDecodeError ''Expecting value'' ''(...)'')),
       dumps = (\<lambda>v. Inr ''{...}''),
       repr_bytes = (\<lambda>b. ''b'' @ [CHR 0x27] @ b @ [CHR 0x27]),
       float_num = Inr,
       float_bool = (\<lambda>b. if b then 1 else 0),
       float_str = (\<lambda>s. if s = ''1700000000'' then Some 1700000000 else None),
       fromtimestamp = (\<lambda>f. if 0 \<le> f \<and> f \<le> 253402300799 then Inr f
                              else Inl (Exception ValueError ''year is out of range'' ''(...)'')),
       strftime = (\<lambda>dt. ''Nov 14, 2023 at 22:13''),
       naturaltime = (\<lambda>dt. ''a year ago''),
       builtin_text = (\<lambda>c. ([], ''()'')) \<rparr>"

definition stub_world :: "string option \<Rightarrow> int world" where
  "stub_world key =
     \<lparr> conf = (case key of None \<Rightarrow> [] | Some k \<Rightarrow> [(''cloud_key'', k)]),
       headers = initial_headers,
       trace = [] \<rparr>"

section \<open>Basic facts about the list of effects\<close>

lemma trace_emit: "trace (emit e s) = trace s @ [e]"
  by (simp add: emit_def)

lemma conf_emit: "conf (emit e s) = conf s"
  by (simp add: emit_def)

lemma headers_emit: "headers (emit e s) = headers s"
  by (simp add: emit_def)

lemma get_key_emit: "get_key (emit e s) = get_key s"
  by (simp add: get_key_def read_conf_file_def emit_def)

lemma truthy_str_Some: "truthy_str x = Some k \<Longrightarrow> x = Some k \<and> k \<noteq> []"
  by (cases x) (auto split: if_splits)

lemma write_calls_append: "write_calls (xs @ ys) = write_calls xs @ write_calls ys"
  by (induction xs rule: write_calls.induct) simp_all

lemma sent_requests_append: "sent_requests (xs @ ys) = sent_requests xs @ sent_requests ys"
  by (induction xs rule: sent_requests.induct) simp_all

lemma connections_append: "connections (xs @ ys) = connections xs + connections ys"
  by (induction xs rule: connections.induct) simp_all

lemma conf_writes_append: "conf_writes (xs @ ys) = conf_writes xs @ conf_writes ys"
  by (induction xs rule: conf_writes.induct) simp_all

section \<open>Key management: the accepted keys\<close>

text \<open>
  C6. \<^verbatim>\<open>set_key\<close> persists exactly \<^verbatim>\<open>{cloud_key: key}\<close> and echoes the confirmation
  when the key is non-empty and 22 characters long; for every other key, absent and
  empty included, it only warns and leaves the configuration as it was. A
  configuration write happens if and only if the key is valid.
\<close>

theorem set_key_valid_iff:
  "(valid_key user_key \<longrightarrow>
      (\<exists>k. user_key = Some k \<and>
           set_key user_key s =
             s\<lparr>conf := AList.update ''cloud_key'' k (conf s),
               trace := trace s @ [Conf_updated [(''cloud_key'', k)],
                                   Echoed (''Key was stored '' @ k)]\<rparr>)) \<and>
   (\<not> valid_key user_key \<longrightarrow>
      set_key user_key s = s\<lparr>trace := trace s @ [Warned malformed_warning]\<rparr>) \<and>
   (conf_writes (trace (set_key user_key s)) \<noteq> conf_writes (trace s) \<longleftrightarrow> valid_key user_key)"
  by (cases user_key)
     (auto simp: set_key_def private_set_key_def valid_key_def emit_def update_conf_file_def
                 conf_writes_append)

theorem set_key_valid_iff_witness:
  "valid_key (Some ''abcdefghijklmnopqrstuv'') \<and>
   get_key (set_key (Some ''abcdefghijklmnopqrstuv'') (stub_world None))
     = Some ''abcdefghijklmnopqrstuv'' \<and>
   trace (set_key (Some ''abcdefghijklmnopqrstuv'') (stub_world None))
     = [Conf_updated [(''cloud_key'', ''abcdefghijklmnopqrstuv'')],
        Echoed ''Key was stored abcdefghijklmnopqrstuv''] \<and>
   \<not> valid_key (Some ''short'') \<and>
   set_key (Some ''short'') (stub_world None :: int world)
     = (stub_world None)\<lparr>trace := [Warned malformed_warning]\<rparr>"
  using set_key_valid_iff [of "Some ''abcdefghijklmnopqrstuv''" "stub_world None :: int world"]
        set_key_valid_iff [of "Some ''short''" "stub_world None :: int world"]
  by (simp add: valid_key_def stub_world_def get_key_def read_conf_file_def)

section \<open>Calls that stop at validation\<close>

text \<open>
  C7. Without a configured key (the stored value is absent or empty) \<^verbatim>\<open>get_pipeline\<close>
  returns the string that starts with "No cloud API Key", raises nothing and leaves
  the world as it was: no connection is opened and no request is sent.
\<close>

theorem get_pipeline_no_key:
  assumes "truthy_str (get_key s) = None"
  shows "get_pipeline env pipeline_id verbose s
           = (Inr (Message (''No cloud API Key was found: '' @ format_opt (get_key s))), s) \<and>
         sublist ''No cloud API Key''
           (''No cloud API Key was found: '' @ format_opt (get_key s))"
proof -
  have "sublist ''No cloud API Key''
          (''No cloud API Key'' @ '' was found: '' @ format_opt (get_key s))"
    by (rule sublist_append_rightI)
  then show ?thesis using assms by (simp add: get_pipeline_def)
qed

theorem get_pipeline_no_key_witness:
  "truthy_str (get_key (stub_world None :: int world)) = None \<and>
   get_pipeline (stub_env (Inr ''[]'') (''[]'', PList [])) (Some ''p1'') None (stub_world None)
     = (Inr (Message ''No cloud API Key was found: None''), stub_world None) \<and>
   truthy_str (get_key (stub_world (Some []) :: int world)) = None \<and>
   get_pipeline (stub_env (Inr ''[]'') (''[]'', PList [])) None None (stub_world (Some []))
     = (Inr (Message ''No cloud API Key was found: ''), stub_world (Some []))"
  using get_pipeline_no_key [of "stub_world None :: int world"
          "stub_env (Inr ''[]'') (''[]'', PList [])" "Some ''p1''" None]
        get_pipeline_no_key [of "stub_world (Some []) :: int world"
          "stub_env (Inr ''[]'') (''[]'', PList [])" None None]
  by (simp add: stub_world_def get_key_def read_conf_file_def)

text \<open>
  C8. With a configured key, \<^verbatim>\<open>write_pipeline\<close> with an empty \<^verbatim>\<open>pipeline_id\<close> returns
  "No input pipeline_id: ...", with a \<^verbatim>\<open>pipeline_id\<close> and an empty \<^verbatim>\<open>status\<close> it
  returns "No input pipeline status: ...", and \<^verbatim>\<open>delete_pipeline\<close> with an empty
  \<^verbatim>\<open>pipeline_id\<close> returns "No input pipeline_id: ...". The world afterwards differs
  from the one before by the record of the entry into \<^verbatim>\<open>_write_pipeline\<close> at most:
  no connection is opened and no request is sent.
\<close>

theorem missing_arguments_no_request:
  assumes "truthy_str (get_key s) = Some k"
  shows "(truthy_str pipeline_id = None \<longrightarrow>
            write_pipeline env pipeline_id status log pipeline_name dag s
              = (Inr (Str (''No input pipeline_id: '' @ k)),
                 emit (Called_write_pipeline pipeline_id status log pipeline_name dag) s) \<and>
            delete_pipeline env pipeline_id s = (Inr (Str (''No input pipeline_id: '' @ k)), s)) \<and>
         (truthy_str pipeline_id \<noteq> None \<and> truthy_str status = None \<longrightarrow>
            write_pipeline env pipeline_id status log pipeline_name dag s
              = (Inr (Str (''No input pipeline status: '' @ k)),
                 emit (Called_write_pipeline pipeline_id status log pipeline_name dag) s)) \<and>
         sublist ''No input pipeline_id'' (''No input pipeline_id: '' @ k) \<and>
         sublist ''No input pipeline status'' (''No input pipeline status: '' @ k) \<and>
         sent_requests
             (trace (emit (Called_write_pipeline pipeline_id status log pipeline_name dag) s))
           = sent_requests (trace s) \<and>
         connections
             (trace (emit (Called_write_pipeline pipeline_id status log pipeline_name dag) s))
           = connections (trace s)"
proof -
  have key: "get_key s = Some k"
    using assms by (simp add: truthy_str_Some)
  have a: "sublist ''No input pipeline_id'' (''No input pipeline_id'' @ '': '' @ k)"
    by (rule sublist_append_rightI)
  have b: "sublist ''No input pipeline status'' (''No input pipeline status'' @ '': '' @ k)"
    by (rule sublist_append_rightI)
  show ?thesis
    using assms key a b
    by (auto simp: write_pipeline_def private_write_pipeline_def delete_pipeline_def
                   get_key_emit trace_emit sent_requests_append connections_append)
qed

theorem missing_arguments_no_request_witness:
  "truthy_str (get_key (stub_world (Some ''abcdefghijklmnopqrstuv'') :: int world))
     = Some ''abcdefghijklmnopqrstuv'' \<and>
   fst (write_pipeline (stub_env (Inr ''ok'') (''[]'', PList [])) (Some []) (Some ''started'')
          None None PNone (stub_world (Some ''abcdefghijklmnopqrstuv'')))
     = Inr (Str ''No input pipeline_id: abcdefghijklmnopqrstuv'') \<and>
   delete_pipeline (stub_env (Inr ''ok'') (''[]'', PList [])) None
          (stub_world (Some ''abcdefghijklmnopqrstuv''))
     = (Inr (Str ''No input pipeline_id: abcdefghijklmnopqrstuv''),
        stub_world (Some ''abcdefghijklmnopqrstuv'')) \<and>
   write_pipeline (stub_env (Inr ''ok'') (''[]'', PList [])) (Some ''p1'') None
          None None PNone (stub_world (Some ''abcdefghijklmnopqrstuv''))
     = (Inr (Str ''No input pipeline status: abcdefghijklmnopqrstuv''),
        emit (Called_write_pipeline (Some ''p1'') None None None PNone)
          (stub_world (Some ''abcdefghijklmnopqrstuv'')))"
  using missing_arguments_no_request [of "stub_world (Some ''abcdefghijklmnopqrstuv'') :: int world"
          "''abcdefghijklmnopqrstuv''" "Some []" "stub_env (Inr ''ok'') (''[]'', PList [])"
          "Some ''started''" None None PNone]
        missing_arguments_no_request [of "stub_world (Some ''abcdefghijklmnopqrstuv'') :: int world"
          "''abcdefghijklmnopqrstuv''" None "stub_env (Inr ''ok'') (''[]'', PList [])"
          None None None PNone]
        missing_arguments_no_request [of "stub_world (Some ''abcdefghijklmnopqrstuv'') :: int world"
          "''abcdefghijklmnopqrstuv''" "Some ''p1''" "stub_env (Inr ''ok'') (''[]'', PList [])"
          None None None PNone]
  by (simp add: stub_world_def get_key_def read_conf_file_def)

section \<open>Requests and what comes back\<close>

lemma private_write_pipeline_valid:
  assumes "truthy_str (get_key s) = Some k"
      and "truthy_str pipeline_id = Some pid"
      and "truthy_str status = Some st"
  shows "private_write_pipeline env pipeline_id status log pipeline_name dag s =
           (let s1 = emit (Connect CLOUD_APP_URL 3)
                       (emit (Called_write_pipeline pipeline_id status log pipeline_name dag) s);
                rs = write_pipeline_try env k pid st log pipeline_name dag s1
            in (case fst rs of
                  Inr content \<Rightarrow> Inr content
                | Inl e \<Rightarrow> Inr (Str (''Error fetching pipeline '' @ str_e e)),
                emit Closed (snd rs)))"
  using assms
  by (simp add: private_write_pipeline_def get_key_emit Let_def split: prod.splits)

lemma private_write_pipeline_invalid:
  assumes "truthy_str (get_key s) = None \<or> truthy_str pipeline_id = None \<or> truthy_str status = None"
  shows "snd (private_write_pipeline env pipeline_id status log pipeline_name dag s)
           = emit (Called_write_pipeline pipeline_id status log pipeline_name dag) s"
  using assms
  by (auto simp: private_write_pipeline_def Let_def get_key_emit split: option.splits)

lemma write_pipeline_try_cases:
  "write_pipeline_try env k pid st log pipeline_name dag s =
     (case dumps env (PDict (write_body pid st log pipeline_name dag)) of
        Inl e \<Rightarrow> (Inl e, s\<lparr>headers := AList.update ''api_key'' (HStr k) (headers s)\<rparr>)
      | Inr txt \<Rightarrow>
          (case net env (trace s)
                  (Request POST PIPELINES_RESOURCE (Some txt)
                     (AList.update ''api_key'' (HStr k) (headers s))) of
             Inl e \<Rightarrow> Inl e
           | Inr content \<Rightarrow> Inr (Bytes content),
           emit (Sent (Request POST PIPELINES_RESOURCE (Some txt)
                         (AList.update ''api_key'' (HStr k) (headers s))))
             (s\<lparr>headers := AList.update ''api_key'' (HStr k) (headers s)\<rparr>)))"
  by (simp add: write_pipeline_try_def Let_def split: sum.splits)

lemma cls_builtin: "cls (builtin env c) = c"
  by (simp add: builtin_def)

lemma get_last_run_raises: "get_last_run env v = Inl e \<Longrightarrow> \<not> is_ValueError (cls e)"
  by (auto simp: get_last_run_def Let_def split: if_splits sum.splits)

lemma update_item_raises: "update_item env item = Inl e \<Longrightarrow> \<not> is_ValueError (cls e)"
  by (cases item) (auto simp: cls_builtin dest: get_last_run_raises split: option.splits sum.splits)

lemma update_items_raises: "update_items env items = Inl e \<Longrightarrow> \<not> is_ValueError (cls e)"
  by (induction items arbitrary: e) (auto dest: update_item_raises split: sum.splits)

lemma update_pipeline_raises: "update_pipeline env p = Inl e \<Longrightarrow> \<not> is_ValueError (cls e)"
  by (cases p) (auto simp: cls_builtin dest: update_items_raises split: sum.splits if_splits)

lemma get_pipeline_valid:
  assumes "truthy_str (get_key s) = Some k"
  shows "get_pipeline env pipeline_id verbose s =
           (let t = get_pipeline_try env k pipeline_id verbose (emit (Connect CLOUD_APP_URL 3) s)
            in (case fst t of
                  Inr pipeline \<Rightarrow> Inr (Pipeline pipeline)
                | Inl e \<Rightarrow>
                    if cls e = JSONDecodeError then
                      (case fst (snd t) of
                         Some c \<Rightarrow> Inr (Message (''Issue fetching pipeline '' @ repr_bytes env c))
                       | None \<Rightarrow> Inl (builtin env UnboundLocalError))
                    else Inl e,
                emit Closed (snd (snd t))))"
  using assms
  by (cases "get_pipeline_try env k pipeline_id verbose (emit (Connect CLOUD_APP_URL 3) s)")
     (simp add: get_pipeline_def Let_def split: sum.splits)

lemma get_pipeline_trace:
  assumes "truthy_str (get_key s) = Some k"
  shows "trace (snd (get_pipeline env pipeline_id verbose s)) =
           trace s @ [Connect CLOUD_APP_URL 3,
                      Sent (Request GET PIPELINES_RESOURCE None (get_headers k pipeline_id verbose)),
                      Closed]"
  unfolding get_pipeline_valid [OF assms] get_pipeline_try_def
  by (simp add: Let_def trace_emit split: sum.splits)

text \<open>
  C3. With a configured key, a non-empty \<^verbatim>\<open>pipeline_id\<close> and a non-empty \<^verbatim>\<open>status\<close>,
  \<^verbatim>\<open>write_pipeline\<close> never raises: it returns the raw body when the request
  succeeds, and the string "Error fetching pipeline " followed by the text of the
  exception when serialising the body or the request fails. Exactly one connection is
  opened, and closing it is the last effect on every path.
\<close>

theorem write_pipeline_never_raises:
  assumes key: "truthy_str (get_key s) = Some k"
      and pid: "truthy_str pipeline_id = Some pid"
      and st: "truthy_str status = Some st"
  shows "let body = PDict (write_body pid st log pipeline_name dag);
             hdrs = AList.update ''api_key'' (HStr k) (headers s);
             tr = trace s @ [Called_write_pipeline pipeline_id status log pipeline_name dag,
                             Connect CLOUD_APP_URL 3];
             (r, s') = write_pipeline env pipeline_id status log pipeline_name dag s
         in (\<exists>v. r = Inr v) \<and> last (trace s') = Closed \<and>
            connections (trace s') = Suc (connections (trace s)) \<and>
            headers s' = hdrs \<and> conf s' = conf s \<and>
            (case dumps env body of
               Inl e \<Rightarrow> r = Inr (Str (''Error fetching pipeline '' @ str_e e)) \<and>
                        trace s' = tr @ [Closed]
             | Inr txt \<Rightarrow>
                 (let req = Request POST PIPELINES_RESOURCE (Some txt) hdrs
                  in trace s' = tr @ [Sent req, Closed] \<and>
                     (case net env tr req of
                        Inl e \<Rightarrow> r = Inr (Str (''Error fetching pipeline '' @ str_e e))
                      | Inr content \<Rightarrow> r = Inr (Bytes content))))"
  unfolding write_pipeline_def private_write_pipeline_valid [OF key pid st]
            write_pipeline_try_cases
  by (simp add: Let_def trace_emit headers_emit conf_emit connections_append split: sum.splits)

theorem write_pipeline_never_raises_witness:
  "truthy_str (get_key (stub_world (Some ''abcdefghijklmnopqrstuv'') :: int world))
     = Some ''abcdefghijklmnopqrstuv'' \<and>
   fst (write_pipeline (stub_env (Inr ''ok'') (''[]'', PList [])) (Some ''p1'') (Some ''started'')
          None None PNone (stub_world (Some ''abcdefghijklmnopqrstuv'')))
     = Inr (Bytes ''ok'') \<and>
   trace (snd (write_pipeline (stub_env (Inr ''ok'') (''[]'', PList [])) (Some ''p1'')
          (Some ''started'') None None PNone (stub_world (Some ''abcdefghijklmnopqrstuv''))))
     = [Called_write_pipeline (Some ''p1'') (Some ''started'') None None PNone,
        Connect CLOUD_APP_URL 3,
        Sent (Request POST PIPELINES_RESOURCE (Some ''{...}'')
                [(''Content-type'', HStr ''application/json''),
                 (''api_key'', HStr ''abcdefghijklmnopqrstuv'')]),
        Closed] \<and>
   fst (write_pipeline
          (stub_env (Inl (Exception OSError ''timed out'' ''(...)'')) (''[]'', PList []))
          (Some ''p1'') (Some ''started'')
          None None PNone (stub_world (Some ''abcdefghijklmnopqrstuv'')))
     = Inr (Str ''Error fetching pipeline timed out'')"
  using write_pipeline_never_raises [of "stub_world (Some ''abcdefghijklmnopqrstuv'') :: int world"
          "''abcdefghijklmnopqrstuv''" "Some ''p1''" "''p1''" "Some ''started''" "''started''"
          None None PNone "stub_env (Inr ''ok'') (''[]'', PList [])"]
        write_pipeline_never_raises [of "stub_world (Some ''abcdefghijklmnopqrstuv'') :: int world"
          "''abcdefghijklmnopqrstuv''" "Some ''p1''" "''p1''" "Some ''started''" "''started''"
          None None PNone
          "stub_env (Inl (Exception OSError ''timed out'' ''(...)'')) (''[]'', PList [])"]
  by (simp add: stub_world_def stub_env_def get_key_def read_conf_file_def initial_headers_def
                Let_def split: prod.splits)



text \<open>
  C10. Importing the module runs
  \<^verbatim>\<open>get_pipeline('9f9e18e0-d027-4827-bd4d-1908f294bca2', False)\<close>: with a configured
  key the import opens a connection, sends one GET with the key and that identifier
  as headers, and closes the connection; without a key it has no effect.
\<close>

theorem module_import_fetches:
  "(case truthy_str (get_key s) of
      None \<Rightarrow> trace (snd (module_import env s)) = trace s
    | Some k \<Rightarrow>
        trace (snd (module_import env s)) =
          trace s @ [Connect CLOUD_APP_URL 3,
                     Sent (Request GET PIPELINES_RESOURCE None
                             [(''api_key'', HStr k),
                              (''pipeline_id'', HStr ''9f9e18e0-d027-4827-bd4d-1908f294bca2'')]),
                     Closed]) \<and>
   module_import env s =
     get_pipeline env (Some ''9f9e18e0-d027-4827-bd4d-1908f294bca2'') (Some False)
       (s\<lparr>headers := initial_headers\<rparr>)"
proof (cases "truthy_str (get_key s)")
  case None
  then have "truthy_str (get_key (s\<lparr>headers := initial_headers\<rparr>)) = None"
    by (simp add: get_key_def read_conf_file_def)
  then show ?thesis using None
    by (simp add: module_import_def get_pipeline_def)
next
  case (Some k)
  then have "truthy_str (get_key (s\<lparr>headers := initial_headers\<rparr>)) = Some k"
    by (simp add: get_key_def read_conf_file_def)
  from get_pipeline_trace [OF this, of env "Some ''9f9e18e0-d027-4827-bd4d-1908f294bca2''"
      "Some False"] Some
  show ?thesis
    by (simp add: module_import_def get_headers_def Let_def)
qed

theorem module_import_fetches_witness:
  "trace (snd (module_import (stub_env (Inr ''[]'') (''[]'', PList []))
                 (stub_world (Some ''abcdefghijklmnopqrstuv''))))
     = [Connect CLOUD_APP_URL 3,
        Sent (Request GET PIPELINES_RESOURCE None
                [(''api_key'', HStr ''abcdefghijklmnopqrstuv''),
                 (''pipeline_id'', HStr ''9f9e18e0-d027-4827-bd4d-1908f294bca2'')]),
        Closed]"
  using conjunct1 [OF module_import_fetches [of "stub_env (Inr ''[]'') (''[]'', PList [])"
          "stub_world (Some ''abcdefghijklmnopqrstuv'') :: int world"]]
  by (simp add: stub_world_def get_key_def read_conf_file_def)

section \<open>The humanised timestamp\<close>

lemma update_item_Inr:
  "update_item env item = Inr item' \<Longrightarrow>
     \<exists>d v v'. item = PDict d \<and> map_of d ''updated'' = Some v \<and>
              get_last_run env v = Inr v' \<and> item' = PDict (AList.update ''updated'' v' d)"
  by (cases item) (auto split: option.splits sum.splits)

lemma update_items_length:
  "update_items env items = Inr items' \<Longrightarrow> length items' = length items"
  by (induction items arbitrary: items') (auto split: sum.splits)

lemma update_items_nth:
  "update_items env items = Inr items' \<Longrightarrow> i < length items \<Longrightarrow>
     update_item env (items ! i) = Inr (items' ! i)"
proof (induction items arbitrary: items' i)
  case Nil
  then show ?case by simp
next
  case (Cons item rest)
  then show ?case
    by (cases i) (auto split: sum.splits)
qed

lemma update_item_updated:
  "map_of d ''updated'' = Some v \<Longrightarrow> get_last_run env v = Inl e \<Longrightarrow>
     update_item env (PDict d) = Inl e"
  by simp

lemma update_items_failure:
  assumes "i < length items" and "update_item env (items ! i) = Inl e"
  shows "\<exists>e'. update_items env items = Inl e'"
proof (cases "update_items env items")
  case (Inl e')
  then show ?thesis by blast
next
  case (Inr items')
  from update_items_nth [OF Inr assms(1)] assms(2) show ?thesis by simp
qed

lemma update_items_first_failure:
  "i < length items \<Longrightarrow> \<forall>j < i. \<exists>x. update_item env (items ! j) = Inr x \<Longrightarrow>
     update_item env (items ! i) = Inl e \<Longrightarrow> update_items env items = Inl e"
proof (induction items arbitrary: i)
  case Nil
  then show ?case by simp
next
  case (Cons item rest)
  show ?case
  proof (cases i)
    case 0
    then show ?thesis using Cons.prems by simp
  next
    case (Suc n)
    have n: "n < length rest" using Cons.prems(1) Suc by simp
    have ok: "\<forall>j < n. \<exists>x. update_item env (rest ! j) = Inr x"
      using Cons.prems(2) Suc by auto
    have hd: "\<exists>x. update_item env item = Inr x"
      using Cons.prems(2) Suc by auto
    have "update_item env (rest ! n) = Inl e" using Cons.prems(3) Suc by simp
    from Cons.IH [OF n ok this] hd show ?thesis by auto
  qed
qed

lemma get_pipeline_result:
  assumes "truthy_str (get_key w) = Some k"
      and "net env (trace w @ [Connect CLOUD_APP_URL 3])
             (Request GET PIPELINES_RESOURCE None (get_headers k pipeline_id verbose)) = Inr content"
      and "loads env content = Inr pipeline"
  shows "fst (get_pipeline env pipeline_id verbose w) =
           (case update_pipeline env pipeline of Inl e \<Rightarrow> Inl e | Inr p \<Rightarrow> Inr (Pipeline p))"
proof -
  have nj: "\<And>e. update_pipeline env pipeline = Inl e \<Longrightarrow> cls e \<noteq> JSONDecodeError"
    using update_pipeline_raises by fastforce
  show ?thesis
    unfolding get_pipeline_valid [OF assms(1)] get_pipeline_try_def
    using assms(2,3)
    by (auto simp: Let_def trace_emit dest: nj split: sum.splits)
qed

text \<open>
  C5, as the code has it. \<^verbatim>\<open>get_last_run\<close> returns "Has not been run" for
  \<^verbatim>\<open>None\<close>; for any other value it returns "{relative-time} ({absolute-date})" when
  both \<^verbatim>\<open>float\<close> and \<^verbatim>\<open>datetime.fromtimestamp\<close> succeed, returns the raw value when
  either raises a \<^verbatim>\<open>ValueError\<close> (a string that is not a number, a timestamp beyond
  the representable years), and lets every other exception through: the
  \<^verbatim>\<open>TypeError\<close> of \<^verbatim>\<open>float\<close> on an array or an object is one. When the response of
  \<^verbatim>\<open>get_pipeline\<close> parses to a list and the loop over it ends normally,
  \<^verbatim>\<open>get_pipeline\<close> returns the list in which every record is the dictionary received
  with its \<^verbatim>\<open>updated\<close> entry replaced by what \<^verbatim>\<open>get_last_run\<close> returned for it. When
  \<^verbatim>\<open>get_last_run\<close> raises for the \<^verbatim>\<open>updated\<close> entry of some record, \<^verbatim>\<open>get_pipeline\<close>
  raises; it raises that very exception when the records before it went through.
\<close>

theorem get_last_run_cases:
  "get_last_run env PNone = Inr (PStr ''Has not been run'') \<and>
   (v \<noteq> PNone \<and> py_float env v = Inr f \<and> fromtimestamp env f = Inr dt \<longrightarrow>
      get_last_run env v = Inr (PStr (naturaltime env dt @ '' ('' @ strftime env dt @ '')''))) \<and>
   (v \<noteq> PNone \<and>
    (py_float env v = Inl e \<or> py_float env v = Inr f \<and> fromtimestamp env f = Inl e) \<longrightarrow>
      get_last_run env v = (if is_ValueError (cls e) then Inr v else Inl e)) \<and>
   (float_str env s = None \<longrightarrow> get_last_run env (PStr s) = Inr (PStr s)) \<and>
   get_last_run env (PList xs) = Inl (builtin env TypeError) \<and>
   get_last_run env (PDict d) = Inl (builtin env TypeError) \<and>
   (update_items env items = Inr items' \<longrightarrow>
      length items' = length items \<and>
      (\<forall>i < length items. \<exists>d v v'.
          items ! i = PDict d \<and> map_of d ''updated'' = Some v \<and>
          get_last_run env v = Inr v' \<and>
          items' ! i = PDict (AList.update ''updated'' v' d))) \<and>
   (truthy_str (get_key w) = Some k \<and>
    net env (trace w @ [Connect CLOUD_APP_URL 3])
      (Request GET PIPELINES_RESOURCE None (get_headers k pipeline_id verbose)) = Inr content \<and>
    loads env content = Inr (PList items) \<longrightarrow>
      (update_items env items = Inr items' \<longrightarrow>
         fst (get_pipeline env pipeline_id verbose w) = Inr (Pipeline (PList items'))) \<and>
      (\<forall>i d1 v1 e1.
         i < length items \<and> items ! i = PDict d1 \<and> map_of d1 ''updated'' = Some v1 \<and>
         get_last_run env v1 = Inl e1 \<longrightarrow>
           (\<exists>e'. fst (get_pipeline env pipeline_id verbose w) = Inl e') \<and>
           ((\<forall>j < i. \<exists>x. update_item env (items ! j) = Inr x) \<longrightarrow>
              fst (get_pipeline env pipeline_id verbose w) = Inl e1)))"
proof -
  have a: "get_last_run env PNone = Inr (PStr ''Has not been run'')"
    by (simp add: get_last_run_def)
  have b: "v \<noteq> PNone \<and> py_float env v = Inr f \<and> fromtimestamp env f = Inr dt \<longrightarrow>
      get_last_run env v = Inr (PStr (naturaltime env dt @ '' ('' @ strftime env dt @ '')''))"
    by (simp add: get_last_run_def Let_def)
  have b': "v \<noteq> PNone \<and>
      (py_float env v = Inl e \<or> py_float env v = Inr f \<and> fromtimestamp env f = Inl e) \<longrightarrow>
      get_last_run env v = (if is_ValueError (cls e) then Inr v else Inl e)"
    by (auto simp: get_last_run_def Let_def)
  have c: "float_str env s = None \<longrightarrow> get_last_run env (PStr s) = Inr (PStr s)"
    by (simp add: get_last_run_def builtin_def)
  have d: "get_last_run env (PList xs) = Inl (builtin env TypeError)"
    by (simp add: get_last_run_def builtin_def)
  have e: "get_last_run env (PDict d) = Inl (builtin env TypeError)"
    by (simp add: get_last_run_def builtin_def)
  have f: "update_items env items = Inr items' \<longrightarrow>
      length items' = length items \<and>
      (\<forall>i < length items. \<exists>d v v'.
          items ! i = PDict d \<and> map_of d ''updated'' = Some v \<and>
          get_last_run env v = Inr v' \<and>
          items' ! i = PDict (AList.update ''updated'' v' d))"
    using update_items_length update_items_nth update_item_Inr by blast
  have g: "(update_items env items = Inr items' \<longrightarrow>
         fst (get_pipeline env pipeline_id verbose w) = Inr (Pipeline (PList items'))) \<and>
      (\<forall>i d1 v1 e1.
         i < length items \<and> items ! i = PDict d1 \<and> map_of d1 ''updated'' = Some v1 \<and>
         get_last_run env v1 = Inl e1 \<longrightarrow>
           (\<exists>e'. fst (get_pipeline env pipeline_id verbose w) = Inl e') \<and>
           ((\<forall>j < i. \<exists>x. update_item env (items ! j) = Inr x) \<longrightarrow>
              fst (get_pipeline env pipeline_id verbose w) = Inl e1))"
    if key: "truthy_str (get_key w) = Some k"
      and net: "net env (trace w @ [Connect CLOUD_APP_URL 3])
        (Request GET PIPELINES_RESOURCE None (get_headers k pipeline_id verbose)) = Inr content"
      and lds: "loads env content = Inr (PList items)"
  proof -
    note r = get_pipeline_result [OF key net lds]
    have g1: "update_items env items = Inr items' \<longrightarrow>
         fst (get_pipeline env pipeline_id verbose w) = Inr (Pipeline (PList items'))"
      unfolding r by simp
    have g2: "(\<exists>e'. fst (get_pipeline env pipeline_id verbose w) = Inl e') \<and>
           ((\<forall>j < i. \<exists>x. update_item env (items ! j) = Inr x) \<longrightarrow>
              fst (get_pipeline env pipeline_id verbose w) = Inl e1)"
      if i: "i < length items" and it: "items ! i = PDict d1"
        and m: "map_of d1 ''updated'' = Some v1" and gl: "get_last_run env v1 = Inl e1"
      for i d1 v1 e1
    proof -
      have ui: "update_item env (items ! i) = Inl e1"
        unfolding it by (rule update_item_updated [OF m gl])
      from update_items_failure [OF i ui] have x: "\<exists>e'. update_items env items = Inl e'" .
      have y: "update_items env items = Inl e1"
        if "\<forall>j < i. \<exists>x. update_item env (items ! j) = Inr x"
        by (rule update_items_first_failure [OF i that ui])
      from x y show ?thesis unfolding r by auto
    qed
    from g1 g2 show ?thesis by blast
  qed
  from a b b' c d e f g show ?thesis by blast
qed

theorem get_last_run_cases_witness:
  \<open>get_last_run (stub_env (Inr ''[]'') (''[]'', PList [])) (PNum 1700000000)
     = Inr (PStr ''a year ago (Nov 14, 2023 at 22:13)'') \<and>
   get_last_run (stub_env (Inr ''[]'') (''[]'', PList [])) (PStr ''yesterday'')
     = Inr (PStr ''yesterday'') \<and>
   get_last_run (stub_env (Inr ''[]'') (''[]'', PList [])) (PNum 10000000000000)
     = Inr (PNum 10000000000000) \<and>
   fst (get_pipeline
          (stub_env (Inr ''[{"name": "etl", "updated": null}, {"updated": 1700000000}]'')
             (''[{"name": "etl", "updated": null}, {"updated": 1700000000}]'',
              PList [PDict [(''name'', PStr ''etl''), (''updated'', PNone)],
                     PDict [(''updated'', PNum 1700000000)]]))
          None None (stub_world (Some ''abcdefghijklmnopqrstuv'')))
     = Inr (Pipeline
             (PList [PDict [(''name'', PStr ''etl''), (''updated'', PStr ''Has not been run'')],
                     PDict [(''updated'', PStr ''a year ago (Nov 14, 2023 at 22:13)'')]])) \<and>
   fst (get_pipeline
          (stub_env (Inr ''[{"updated": null}, {"updated": {}}]'')
             (''[{"updated": null}, {"updated": {}}]'',
              PList [PDict [(''updated'', PNone)], PDict [(''updated'', PDict [])]]))
          None None (stub_world (Some ''abcdefghijklmnopqrstuv'')))
     = Inl (Exception TypeError [] ''()'')\<close>
proof -
  let ?E = \<open>stub_env (Inr ''[]'') (''[]'', PList [])\<close>
  let ?W = \<open>stub_world (Some ''abcdefghijklmnopqrstuv'') :: int world\<close>
  let ?err = \<open>Exception ValueError ''year is out of range'' ''(...)''\<close>
  let ?B1 = \<open>''[{"name": "etl", "updated": null}, {"updated": 1700000000}]''\<close>
  let ?items1 = \<open>[PDict [(''name'', PStr ''etl''), (''updated'', PNone)],
                  PDict [(''updated'', PNum (1700000000 :: int))]]\<close>
  let ?items1' = \<open>[PDict [(''name'', PStr ''etl''), (''updated'', PStr ''Has not been run'')],
                   PDict [(''updated'', PStr ''a year ago (Nov 14, 2023 at 22:13)'' :: int pyval)]]\<close>
  let ?E1 = \<open>stub_env (Inr ?B1) (?B1, PList ?items1)\<close>
  let ?B2 = \<open>''[{"updated": null}, {"updated": {}}]''\<close>
  let ?items2 = \<open>[PDict [(''updated'', PNone)], PDict [(''updated'', PDict [])]] :: int pyval list\<close>
  let ?E2 = \<open>stub_env (Inr ?B2) (?B2, PList ?items2)\<close>
  let ?te = \<open>Exception TypeError [] ''()''\<close>
  have h1: \<open>PNum 1700000000 \<noteq> (PNone :: int pyval)\<close> by simp
  have p1: \<open>py_float ?E (PNum 1700000000) = Inr 1700000000\<close> by (simp add: stub_env_def)
  have f1: \<open>fromtimestamp ?E 1700000000 = Inr 1700000000\<close> by (simp add: stub_env_def)
  have h2: \<open>float_str ?E ''yesterday'' = None\<close> by (simp add: stub_env_def)
  have h4: \<open>PNum 10000000000000 \<noteq> (PNone :: int pyval)\<close> by simp
  have p4: \<open>py_float ?E (PNum 10000000000000) = Inr 10000000000000\<close> by (simp add: stub_env_def)
  have f4: \<open>fromtimestamp ?E 10000000000000 = Inl ?err\<close> by (simp add: stub_env_def)
  note w = get_last_run_cases [where env = ?E and v = \<open>PNum 1700000000\<close> and f = 1700000000
      and dt = 1700000000 and s = \<open>''yesterday''\<close>]
  note w' = get_last_run_cases [where env = ?E and v = \<open>PNum 10000000000000\<close>
      and f = 10000000000000 and e = ?err]
  from w h1 p1 f1 have a: \<open>get_last_run ?E (PNum 1700000000) =
      Inr (PStr (naturaltime ?E 1700000000 @ '' ('' @ strftime ?E 1700000000 @ '')''))\<close>
    by blast
  have a': \<open>get_last_run ?E (PNum 1700000000) = Inr (PStr ''a year ago (Nov 14, 2023 at 22:13)'')\<close>
    unfolding a by (simp add: stub_env_def)
  from w h2 have b: \<open>get_last_run ?E (PStr ''yesterday'') = Inr (PStr ''yesterday'')\<close>
    by blast
  from w' h4 p4 f4 have d: \<open>get_last_run ?E (PNum 10000000000000) =
      (if is_ValueError (cls ?err) then Inr (PNum 10000000000000) else Inl ?err)\<close>
    by blast
  then have d': \<open>get_last_run ?E (PNum 10000000000000) = Inr (PNum 10000000000000)\<close>
    by simp
  have key: \<open>truthy_str (get_key ?W) = Some ''abcdefghijklmnopqrstuv''\<close>
    by (simp add: stub_world_def get_key_def read_conf_file_def)
  have n1: \<open>net ?E1 (trace ?W @ [Connect CLOUD_APP_URL 3])
              (Request GET PIPELINES_RESOURCE None (get_headers ''abcdefghijklmnopqrstuv'' None None)) = Inr ?B1\<close>
    by (simp add: stub_env_def)
  have l1: \<open>loads ?E1 ?B1 = Inr (PList ?items1)\<close>
    by (simp add: stub_env_def)
  have u1: \<open>update_items ?E1 ?items1 = Inr ?items1'\<close>
    by (simp add: get_last_run_def stub_env_def)
  note g1 = get_last_run_cases [where env = ?E1 and w = ?W and k = "''abcdefghijklmnopqrstuv''"
      and pipeline_id = None and verbose = None and content = ?B1 and items = ?items1
      and items' = ?items1']
  from g1 key n1 l1 u1
  have r1: \<open>fst (get_pipeline ?E1 None None ?W) = Inr (Pipeline (PList ?items1'))\<close>
    by blast
  have n2: \<open>net ?E2 (trace ?W @ [Connect CLOUD_APP_URL 3])
              (Request GET PIPELINES_RESOURCE None (get_headers ''abcdefghijklmnopqrstuv'' None None)) = Inr ?B2\<close>
    by (simp add: stub_env_def)
  have l2: \<open>loads ?E2 ?B2 = Inr (PList ?items2)\<close>
    by (simp add: stub_env_def)
  have i2: \<open>(1 :: nat) < length ?items2 \<and> ?items2 ! 1 = PDict [(''updated'', PDict [])] \<and>
            map_of [(''updated'', PDict [] :: int pyval)] ''updated'' = Some (PDict [])\<close>
    by simp
  have e2: \<open>get_last_run ?E2 (PDict []) = Inl ?te\<close>
    by (simp add: get_last_run_def builtin_def stub_env_def)
  have o2: \<open>\<forall>j < (1 :: nat). \<exists>x. update_item ?E2 (?items2 ! j) = Inr x\<close>
    by (simp add: get_last_run_def)
  note g2 = get_last_run_cases [where env = ?E2 and w = ?W and k = "''abcdefghijklmnopqrstuv''"
      and pipeline_id = None and verbose = None and content = ?B2 and items = ?items2]
  from g2 key n2 l2 i2 e2 o2
  have r2: \<open>fst (get_pipeline ?E2 None None ?W) = Inl ?te\<close>
    by blast
  from a' b d' r1 r2 show ?thesis by blast
qed

text \<open>
  C5 as stated fails: the response \<^verbatim>\<open>[{"updated": []}]\<close> is parsed, its value cannot
  be parsed as a number, and \<^verbatim>\<open>get_pipeline\<close> raises \<^verbatim>\<open>TypeError\<close> instead of keeping
  the raw value; and the number 10000000000000 converts to a float, yet the raw value
  is kept, since the year is out of range for \<^verbatim>\<open>datetime.fromtimestamp\<close>.
\<close>

theorem updated_field_counterexample:
  \<open>fst (get_pipeline
          (stub_env (Inr ''[{"updated": []}]'')
             (''[{"updated": []}]'', PList [PDict [(''updated'', PList [])]]))
          None None (stub_world (Some ''abcdefghijklmnopqrstuv'')))
     = Inl (Exception TypeError [] ''()'') \<and>
   get_last_run (stub_env (Inr ''[]'') (''[]'', PList [])) (PList [])
     \<noteq> Inr (PList []) \<and>
   py_float (stub_env (Inr ''[]'') (''[]'', PList [])) (PNum 10000000000000)
     = Inr 10000000000000 \<and>
   get_last_run (stub_env (Inr ''[]'') (''[]'', PList [])) (PNum 10000000000000)
     = Inr (PNum 10000000000000)\<close>
  by (simp add: get_pipeline_def get_pipeline_try_def get_last_run_def stub_env_def
                stub_world_def get_key_def read_conf_file_def builtin_def Let_def)

section \<open>The lifecycle decorator: what is written and what is returned\<close>

lemma write_pipeline_try_effects:
  "\<exists>es. trace (snd (write_pipeline_try env k pid st log pipeline_name dag s)) = trace s @ es \<and>
        write_calls es = []"
  unfolding write_pipeline_try_cases
  by (simp add: trace_emit split: sum.splits)

lemma private_write_pipeline_returns:
  "\<exists>r. fst (private_write_pipeline env pipeline_id status log pipeline_name dag s) = Inr r"
  by (simp add: private_write_pipeline_def Let_def split: option.splits prod.splits sum.splits)

lemma private_write_pipeline_calls:
  "write_calls (trace (snd (private_write_pipeline env pipeline_id status log pipeline_name dag s)))
     = write_calls (trace s) @ [(pipeline_id, status, log, pipeline_name, dag)]"
proof -
  let ?s = "emit (Called_write_pipeline pipeline_id status log pipeline_name dag) s"
  have c: "write_calls (trace ?s) = write_calls (trace s) @ [(pipeline_id, status, log, pipeline_name, dag)]"
    by (simp add: trace_emit write_calls_append)
  show ?thesis
  proof (cases "\<exists>k pid st. truthy_str (get_key s) = Some k \<and> truthy_str pipeline_id = Some pid \<and>
                   truthy_str status = Some st")
    case True
    then obtain k pid st where v: "truthy_str (get_key s) = Some k"
        "truthy_str pipeline_id = Some pid" "truthy_str status = Some st"
      by blast
    obtain es where es: "trace (snd (write_pipeline_try env k pid st log pipeline_name dag
                            (emit (Connect CLOUD_APP_URL 3) ?s)))
                          = trace (emit (Connect CLOUD_APP_URL 3) ?s) @ es" "write_calls es = []"
      using write_pipeline_try_effects by blast
    show ?thesis
      unfolding private_write_pipeline_valid [OF v]
      using es c by (simp add: Let_def trace_emit write_calls_append)
  next
    case False
    then have "snd (private_write_pipeline env pipeline_id status log pipeline_name dag s) = ?s"
      by (auto simp: private_write_pipeline_def Let_def get_key_emit split: option.splits)
    then show ?thesis using c by simp
  qed
qed

lemma write_calls_warn_on_error:
  "write_calls (trace (warn_on_error res s)) = write_calls (trace s)"
  by (simp add: warn_on_error_def trace_emit write_calls_append)

lemma logged_write_returns: "fst (logged_write env pid status log dag s) = None"
  using private_write_pipeline_returns [of env "Some pid" "Some status" log None dag s]
  by (cases "private_write_pipeline env (Some pid) (Some status) log None dag s")
     (auto simp: logged_write_def)

lemma logged_write_calls:
  "write_calls (trace (snd (logged_write env pid status log dag s)))
     = write_calls (trace s) @ [(Some pid, Some status, log, None, dag)]"
  using private_write_pipeline_calls [of env "Some pid" "Some status" log None dag s]
  by (cases "private_write_pipeline env (Some pid) (Some status) log None dag s")
     (auto simp: logged_write_def write_calls_warn_on_error split: sum.splits)

lemma logged_write_eq:
  "logged_write env pid status log dag s = (None, snd (logged_write env pid status log dag s))"
  using logged_write_returns [of env pid status log dag s]
  by (cases "logged_write env pid status log dag s") simp

lemma before_call_calls:
  "write_calls (trace (before_call env s0))
     = write_calls (trace s0) @ [(Some (uuid4 env (trace s0)), Some ''started'', None, None, PNone)]"
  by (simp add: before_call_def Let_def logged_write_calls trace_emit write_calls_append)

lemma cloud_wrapper_unfold:
  "cloud_wrapper env parse_dag payload func args s0 =
     (let pid = uuid4 env (trace s0)
      in case func (if payload then Some [] else None) args (before_call env s0) of
           (Inl raised, s2) \<Rightarrow>
             (case raised of
                Exc e \<Rightarrow>
                  (Inl (Exc e), snd (logged_write env pid ''error'' (Some (str_args e)) PNone s2))
              | _ \<Rightarrow> (Inl raised, s2))
         | (Inr result, s2) \<Rightarrow>
             (Inr result, snd (logged_write env pid ''finished'' None (parse_dag result) s2)))"
proof -
  have a: "\<And>pid status log dag s.
      (case logged_write env pid status log dag s of
         (Some e', s3) \<Rightarrow> f e' s3 | (None, s3) \<Rightarrow> g s3)
        = g (snd (logged_write env pid status log dag s))" for f g
    by (subst logged_write_eq) simp
  show ?thesis
    by (simp add: cloud_wrapper_def before_call_def Let_def a
             split: prod.splits sum.splits base_exception.splits)
qed

lemma private_write_pipeline_sent:
  assumes "truthy_str (get_key s) = Some k" and "truthy_str p = Some pid"
      and "truthy_str st = Some s'"
      and "dumps env (PDict (write_body pid s' l n d)) = Inr body"
  shows "sent_requests (trace (snd (private_write_pipeline env p st l n d s)))
           = sent_requests (trace s) @
             [Request POST PIPELINES_RESOURCE (Some body)
                (AList.update ''api_key'' (HStr k) (headers s))]"
  unfolding private_write_pipeline_valid [OF assms(1-3)] write_pipeline_try_cases
  using assms(4)
  by (simp add: Let_def trace_emit headers_emit sent_requests_append split: sum.splits)

lemma sent_requests_warn_on_error:
  "sent_requests (trace (warn_on_error res s)) = sent_requests (trace s)"
  by (simp add: warn_on_error_def trace_emit sent_requests_append)

lemma logged_write_world:
  "\<exists>r. fst (private_write_pipeline env (Some pid) (Some status) log None dag s) = Inr r \<and>
        snd (logged_write env pid status log dag s) =
          warn_on_error (py_str env r)
            (snd (private_write_pipeline env (Some pid) (Some status) log None dag s))"
  using private_write_pipeline_returns [of env "Some pid" "Some status" log None dag s]
  by (cases "private_write_pipeline env (Some pid) (Some status) log None dag s")
     (auto simp: logged_write_def)

lemma logged_write_sent:
  assumes "truthy_str (get_key s) = Some k" and "pid \<noteq> []"
      and "dumps env (PDict (write_body pid status log None dag)) = Inr body"
  shows "sent_requests (trace (snd (logged_write env pid status log dag s)))
           = (if status = [] then sent_requests (trace s)
              else sent_requests (trace s) @
                [Request POST PIPELINES_RESOURCE (Some body)
                   (AList.update ''api_key'' (HStr k) (headers s))])"
proof (cases "status = []")
  case True
  then have "truthy_str (get_key s) = None \<or> truthy_str (Some pid) = None \<or>
             truthy_str (Some status) = None"
    by simp
  from private_write_pipeline_invalid [OF this]
  have "snd (private_write_pipeline env (Some pid) (Some status) log None dag s)
          = emit (Called_write_pipeline (Some pid) (Some status) log None dag) s" .
  then show ?thesis
    using True logged_write_world [of env pid status log dag s]
    by (auto simp: sent_requests_warn_on_error trace_emit sent_requests_append)
next
  case False
  have p: "truthy_str (Some pid) = Some pid" using assms(2) by simp
  have st: "truthy_str (Some status) = Some status" using False by simp
  from private_write_pipeline_sent [OF assms(1) p st assms(3)] False
  show ?thesis
    using logged_write_world [of env pid status log dag s]
    by (auto simp: sent_requests_warn_on_error)
qed

text \<open>
  C1. When the wrapped function returns normally, the wrapper returns its value
  unchanged. The world in which the wrapped function starts is the one that
  \<^verbatim>\<open>_write_pipeline(pipeline_id=pid, status='started')\<close> leaves, followed by the
  warning check; the world in which the wrapper ends is the one that
  \<^verbatim>\<open>_write_pipeline(pipeline_id=pid, status='finished', dag=parse_dag(result))\<close> leaves
  when run from the world the wrapped function returned in, followed by the warning
  check. Both calls return normally and carry the identifier drawn at the start; they
  are the wrapper's only entries into \<^verbatim>\<open>_write_pipeline\<close>. With a configured key each
  of them sends its POST.
\<close>

theorem cloud_wrapper_returns:
  assumes "func (if payload then Some [] else None) args (before_call env s0) = (Inr result, s2)"
  shows "let pid = uuid4 env (trace s0);
             started = (Some pid, Some ''started'', None, None, PNone);
             finished = (Some pid, Some ''finished'', None, None, parse_dag result);
             w1 = private_write_pipeline env (Some pid) (Some ''started'') None None PNone
                    (emit (Uuid4 pid) s0);
             w3 = private_write_pipeline env (Some pid) (Some ''finished'') None None
                    (parse_dag result) s2;
             s3 = snd (cloud_wrapper env parse_dag payload func args s0)
         in fst (cloud_wrapper env parse_dag payload func args s0) = Inr result \<and>
            (\<exists>r1. fst w1 = Inr r1 \<and>
                  before_call env s0 = warn_on_error (py_str env r1) (snd w1)) \<and>
            (\<exists>r3. fst w3 = Inr r3 \<and> s3 = warn_on_error (py_str env r3) (snd w3)) \<and>
            write_calls (trace (before_call env s0)) = write_calls (trace s0) @ [started] \<and>
            write_calls (trace s3) = write_calls (trace s2) @ [finished] \<and>
            (write_calls (trace s2) = write_calls (trace (before_call env s0)) \<longrightarrow>
               write_calls (trace s3) = write_calls (trace s0) @ [started, finished]) \<and>
            (\<forall>k body.
               truthy_str (get_key s0) = Some k \<and> pid \<noteq> [] \<and>
               dumps env (PDict (write_body pid ''started'' None None PNone)) = Inr body \<longrightarrow>
               sent_requests (trace (before_call env s0)) =
                 sent_requests (trace s0) @
                   [Request POST PIPELINES_RESOURCE (Some body)
                      (AList.update ''api_key'' (HStr k) (headers s0))]) \<and>
            (\<forall>k body.
               truthy_str (get_key s2) = Some k \<and> pid \<noteq> [] \<and>
               dumps env (PDict (write_body pid ''finished'' None None (parse_dag result)))
                 = Inr body \<longrightarrow>
               sent_requests (trace s3) =
                 sent_requests (trace s2) @
                   [Request POST PIPELINES_RESOURCE (Some body)
                      (AList.update ''api_key'' (HStr k) (headers s2))])"
proof -
  let ?pid = "uuid4 env (trace s0)"
  let ?s0 = "emit (Uuid4 ?pid) s0"
  let ?dag = "parse_dag result"
  have res: "cloud_wrapper env parse_dag payload func args s0 =
               (Inr result, snd (logged_write env ?pid ''finished'' None ?dag s2))"
    using assms by (simp add: cloud_wrapper_unfold Let_def)
  have bc: "before_call env s0 = snd (logged_write env ?pid ''started'' None PNone ?s0)"
    by (simp add: before_call_def Let_def)
  have a1: "\<exists>r1. fst (private_write_pipeline env (Some ?pid) (Some ''started'') None None PNone ?s0)
                   = Inr r1 \<and>
                 before_call env s0 = warn_on_error (py_str env r1)
                   (snd (private_write_pipeline env (Some ?pid) (Some ''started'') None None
                           PNone ?s0))"
    unfolding bc by (rule logged_write_world)
  have a3: "\<exists>r3. fst (private_write_pipeline env (Some ?pid) (Some ''finished'') None None ?dag s2)
                   = Inr r3 \<and>
                 snd (cloud_wrapper env parse_dag payload func args s0) =
                   warn_on_error (py_str env r3)
                     (snd (private_write_pipeline env (Some ?pid) (Some ''finished'') None None
                             ?dag s2))"
    unfolding res snd_conv by (rule logged_write_world)
  have c1: "write_calls (trace (before_call env s0))
              = write_calls (trace s0) @ [(Some ?pid, Some ''started'', None, None, PNone)]"
    by (rule before_call_calls)
  have c3: "write_calls (trace (snd (cloud_wrapper env parse_dag payload func args s0)))
              = write_calls (trace s2) @ [(Some ?pid, Some ''finished'', None, None, ?dag)]"
    unfolding res snd_conv by (rule logged_write_calls)
  have q1: "sent_requests (trace (before_call env s0)) =
              sent_requests (trace s0) @
                [Request POST PIPELINES_RESOURCE (Some body)
                   (AList.update ''api_key'' (HStr k) (headers s0))]"
    if "truthy_str (get_key s0) = Some k" "?pid \<noteq> []"
       "dumps env (PDict (write_body ?pid ''started'' None None PNone)) = Inr body"
    for k body
  proof -
    have "truthy_str (get_key ?s0) = Some k" using that(1) by (simp add: get_key_emit)
    from logged_write_sent [OF this that(2) that(3)] show ?thesis
      unfolding bc by (simp add: trace_emit headers_emit sent_requests_append)
  qed
  have q3: "sent_requests (trace (snd (cloud_wrapper env parse_dag payload func args s0))) =
              sent_requests (trace s2) @
                [Request POST PIPELINES_RESOURCE (Some body)
                   (AList.update ''api_key'' (HStr k) (headers s2))]"
    if "truthy_str (get_key s2) = Some k" "?pid \<noteq> []"
       "dumps env (PDict (write_body ?pid ''finished'' None None ?dag)) = Inr body"
    for k body
    using logged_write_sent [OF that] unfolding res snd_conv by simp
  have r: "fst (cloud_wrapper env parse_dag payload func args s0) = Inr result"
    unfolding res by simp
  from r a1 a3 c1 c3 q1 q3 show ?thesis
    unfolding Let_def by (intro conjI allI impI) (simp_all)
qed

theorem cloud_wrapper_returns_witness:
  "fst (cloud_wrapper (stub_env (Inr ''ok'') (''[]'', PList []))
          (\<lambda>r. PDict [(''dag_size'', PStr ''0'')]) False
          (\<lambda>p (a :: unit) s. (Inr (7 :: int), s)) ()
          (stub_world (Some ''abcdefghijklmnopqrstuv'')))
     = Inr 7 \<and>
   write_calls (trace (snd (cloud_wrapper (stub_env (Inr ''ok'') (''[]'', PList []))
          (\<lambda>r. PDict [(''dag_size'', PStr ''0'')]) False
          (\<lambda>p (a :: unit) s. (Inr (7 :: int), s)) ()
          (stub_world (Some ''abcdefghijklmnopqrstuv'')))))
     = [(Some ''1b4e28ba-2fa1-4d3b-a3f5-ef19b5a7633b'', Some ''started'', None, None, PNone),
        (Some ''1b4e28ba-2fa1-4d3b-a3f5-ef19b5a7633b'', Some ''finished'', None, None,
         PDict [(''dag_size'', PStr ''0'')])] \<and>
   sent_requests (trace (snd (cloud_wrapper (stub_env (Inr ''ok'') (''[]'', PList []))
          (\<lambda>r. PDict [(''dag_size'', PStr ''0'')]) False
          (\<lambda>p (a :: unit) s. (Inr (7 :: int), s)) ()
          (stub_world (Some ''abcdefghijklmnopqrstuv'')))))
     = [Request POST PIPELINES_RESOURCE (Some ''{...}'')
          [(''Content-type'', HStr ''application/json''), (''api_key'', HStr ''abcdefghijklmnopqrstuv'')],
        Request POST PIPELINES_RESOURCE (Some ''{...}'')
          [(''Content-type'', HStr ''application/json''), (''api_key'', HStr ''abcdefghijklmnopqrstuv'')]]"
proof -
  let ?E = "stub_env (Inr ''ok'') (''[]'', PList [])"
  let ?W = "stub_world (Some ''abcdefghijklmnopqrstuv'') :: int world"
  let ?pd = "\<lambda>r :: int. PDict [(''dag_size'', PStr ''0'' :: int pyval)]"
  let ?f = "\<lambda>(p :: (string \<times> int pyval) list option) (a :: unit) (s :: int world).
              (Inr (7 :: int) :: base_exception + int, s)"
  let ?req = "Request POST PIPELINES_RESOURCE (Some ''{...}'')
                [(''Content-type'', HStr ''application/json''), (''api_key'', HStr ''abcdefghijklmnopqrstuv'')]"
  have h: "?f (if False then Some [] else None) () (before_call ?E ?W)
             = (Inr 7, before_call ?E ?W)"
    by simp
  have u: "uuid4 ?E (trace ?W) = ''1b4e28ba-2fa1-4d3b-a3f5-ef19b5a7633b''"
    by (simp add: stub_env_def)
  have t: "write_calls (trace ?W) = []"
    by (simp add: stub_world_def)
  have k2: "truthy_str (get_key (before_call ?E ?W)) = Some ''abcdefghijklmnopqrstuv''"
    by (simp add: before_call_def logged_write_def private_write_pipeline_def
                  write_pipeline_try_def warn_on_error_def emit_def get_key_def
                  read_conf_file_def stub_env_def stub_world_def Let_def sublist_code)
  have b: "sent_requests (trace (before_call ?E ?W)) = [?req] \<and>
           headers (before_call ?E ?W)
             = [(''Content-type'', HStr ''application/json''), (''api_key'', HStr ''abcdefghijklmnopqrstuv'')]"
    by (simp add: before_call_def logged_write_def private_write_pipeline_def
                  write_pipeline_try_def warn_on_error_def emit_def get_key_def
                  read_conf_file_def stub_env_def stub_world_def initial_headers_def Let_def
                  sublist_code)
  have d: "dumps ?E (PDict (write_body ''1b4e28ba-2fa1-4d3b-a3f5-ef19b5a7633b'' ''finished'' None None (?pd 7))) = Inr ''{...}''"
    by (simp add: stub_env_def)
  have n: "''1b4e28ba-2fa1-4d3b-a3f5-ef19b5a7633b'' \<noteq> []"
    by simp
  note w = cloud_wrapper_returns [of ?f False "()" ?E ?W 7 "before_call ?E ?W" ?pd,
      unfolded Let_def u, OF h]
  from w have r: "fst (cloud_wrapper ?E ?pd False ?f () ?W) = Inr 7"
    by blast
  from w t have c: "write_calls (trace (snd (cloud_wrapper ?E ?pd False ?f () ?W)))
      = [(Some ''1b4e28ba-2fa1-4d3b-a3f5-ef19b5a7633b'', Some ''started'', None, None, PNone),
         (Some ''1b4e28ba-2fa1-4d3b-a3f5-ef19b5a7633b'', Some ''finished'', None, None, ?pd 7)]"
    by simp
  from w k2 n d have "sent_requests (trace (snd (cloud_wrapper ?E ?pd False ?f () ?W)))
      = sent_requests (trace (before_call ?E ?W)) @
          [Request POST PIPELINES_RESOURCE (Some ''{...}'')
             (AList.update ''api_key'' (HStr ''abcdefghijklmnopqrstuv'') (headers (before_call ?E ?W)))]"
    by blast
  then have q: "sent_requests (trace (snd (cloud_wrapper ?E ?pd False ?f () ?W))) = [?req, ?req]"
    using b by simp
  from r c q show ?thesis by simp
qed

text \<open>
  C2, as the code has it. When the wrapped function raises, the wrapper raises the
  same exception and makes no \<^verbatim>\<open>finished\<close> write. For an instance of \<^verbatim>\<open>Exception\<close>
  the world in which the wrapper ends is the one that
  \<^verbatim>\<open>_write_pipeline(pipeline_id=pid, status='error', log=str(e.args))\<close> leaves when run
  from the world the wrapped function raised in, followed by the warning check; that
  call returns normally, is the wrapper's only entry into \<^verbatim>\<open>_write_pipeline\<close> after
  the \<^verbatim>\<open>started\<close> one, and with a configured key sends its POST. An exception that
  derives from \<^verbatim>\<open>BaseException\<close> only (\<^verbatim>\<open>SystemExit\<close>, \<^verbatim>\<open>KeyboardInterrupt\<close>,
  \<^verbatim>\<open>GeneratorExit\<close>) passes through \<^verbatim>\<open>except Exception\<close>: the wrapper ends in the
  world the wrapped function raised in, with no write and no other effect.
\<close>

theorem cloud_wrapper_raises:
  assumes "func (if payload then Some [] else None) args (before_call env s0) = (Inl raised, s2)"
  shows "let pid = uuid4 env (trace s0);
             started = (Some pid, Some ''started'', None, None, PNone);
             w1 = private_write_pipeline env (Some pid) (Some ''started'') None None PNone
                    (emit (Uuid4 pid) s0);
             s3 = snd (cloud_wrapper env parse_dag payload func args s0)
         in fst (cloud_wrapper env parse_dag payload func args s0) = Inl raised \<and>
            (\<exists>r1. fst w1 = Inr r1 \<and>
                  before_call env s0 = warn_on_error (py_str env r1) (snd w1)) \<and>
            write_calls (trace (before_call env s0)) = write_calls (trace s0) @ [started] \<and>
            (case raised of
               Exc e \<Rightarrow>
                 (\<exists>r3. fst (private_write_pipeline env (Some pid) (Some ''error'')
                              (Some (str_args e)) None PNone s2) = Inr r3 \<and>
                       s3 = warn_on_error (py_str env r3)
                              (snd (private_write_pipeline env (Some pid) (Some ''error'')
                                      (Some (str_args e)) None PNone s2))) \<and>
                 write_calls (trace s3) =
                   write_calls (trace s2) @
                     [(Some pid, Some ''error'', Some (str_args e), None, PNone)] \<and>
                 (\<forall>k body.
                    truthy_str (get_key s2) = Some k \<and> pid \<noteq> [] \<and>
                    dumps env (PDict (write_body pid ''error'' (Some (str_args e)) None PNone))
                      = Inr body \<longrightarrow>
                    sent_requests (trace s3) =
                      sent_requests (trace s2) @
                        [Request POST PIPELINES_RESOURCE (Some body)
                           (AList.update ''api_key'' (HStr k) (headers s2))])
             | _ \<Rightarrow> s3 = s2)"
proof -
  let ?pid = "uuid4 env (trace s0)"
  let ?s0 = "emit (Uuid4 ?pid) s0"
  have bc: "before_call env s0 = snd (logged_write env ?pid ''started'' None PNone ?s0)"
    by (simp add: before_call_def Let_def)
  have a1: "\<exists>r1. fst (private_write_pipeline env (Some ?pid) (Some ''started'') None None PNone ?s0)
                   = Inr r1 \<and>
                 before_call env s0 = warn_on_error (py_str env r1)
                   (snd (private_write_pipeline env (Some ?pid) (Some ''started'') None None
                           PNone ?s0))"
    unfolding bc by (rule logged_write_world)
  have c1: "write_calls (trace (before_call env s0))
              = write_calls (trace s0) @ [(Some ?pid, Some ''started'', None, None, PNone)]"
    by (rule before_call_calls)
  have r: "fst (cloud_wrapper env parse_dag payload func args s0) = Inl raised"
    using assms by (simp add: cloud_wrapper_unfold Let_def split: base_exception.splits)
  have tail: "case raised of
               Exc e \<Rightarrow>
                 (\<exists>r3. fst (private_write_pipeline env (Some ?pid) (Some ''error'')
                              (Some (str_args e)) None PNone s2) = Inr r3 \<and>
                       snd (cloud_wrapper env parse_dag payload func args s0) =
                         warn_on_error (py_str env r3)
                              (snd (private_write_pipeline env (Some ?pid) (Some ''error'')
                                      (Some (str_args e)) None PNone s2))) \<and>
                 write_calls (trace (snd (cloud_wrapper env parse_dag payload func args s0))) =
                   write_calls (trace s2) @
                     [(Some ?pid, Some ''error'', Some (str_args e), None, PNone)] \<and>
                 (\<forall>k body.
                    truthy_str (get_key s2) = Some k \<and> ?pid \<noteq> [] \<and>
                    dumps env (PDict (write_body ?pid ''error'' (Some (str_args e)) None PNone))
                      = Inr body \<longrightarrow>
                    sent_requests (trace (snd (cloud_wrapper env parse_dag payload func args s0))) =
                      sent_requests (trace s2) @
                        [Request POST PIPELINES_RESOURCE (Some body)
                           (AList.update ''api_key'' (HStr k) (headers s2))])
             | _ \<Rightarrow> snd (cloud_wrapper env parse_dag payload func args s0) = s2"
  proof (cases raised)
    case (Exc e)
    have res: "snd (cloud_wrapper env parse_dag payload func args s0) =
                 snd (logged_write env ?pid ''error'' (Some (str_args e)) PNone s2)"
      using assms Exc by (simp add: cloud_wrapper_unfold Let_def)
    have a3: "\<exists>r3. fst (private_write_pipeline env (Some ?pid) (Some ''error'')
                          (Some (str_args e)) None PNone s2) = Inr r3 \<and>
                   snd (cloud_wrapper env parse_dag payload func args s0) =
                     warn_on_error (py_str env r3)
                       (snd (private_write_pipeline env (Some ?pid) (Some ''error'')
                               (Some (str_args e)) None PNone s2))"
      unfolding res by (rule logged_write_world)
    have c3: "write_calls (trace (snd (cloud_wrapper env parse_dag payload func args s0)))
                = write_calls (trace s2) @
                    [(Some ?pid, Some ''error'', Some (str_args e), None, PNone)]"
      unfolding res by (rule logged_write_calls)
    have q3: "sent_requests (trace (snd (cloud_wrapper env parse_dag payload func args s0))) =
                sent_requests (trace s2) @
                  [Request POST PIPELINES_RESOURCE (Some body)
                     (AList.update ''api_key'' (HStr k) (headers s2))]"
      if "truthy_str (get_key s2) = Some k" "?pid \<noteq> []"
         "dumps env (PDict (write_body ?pid ''error'' (Some (str_args e)) None PNone)) = Inr body"
      for k body
      using logged_write_sent [OF that] unfolding res by simp
    from a3 c3 q3 show ?thesis
      unfolding Exc by simp
  qed (use assms in \<open>simp_all add: cloud_wrapper_unfold Let_def\<close>)
  from r a1 c1 tail show ?thesis
    unfolding Let_def by simp
qed

theorem cloud_wrapper_raises_witness:
  "fst (cloud_wrapper (stub_env (Inr ''ok'') (''[]'', PList []))
          (\<lambda>r :: int. PNone) False
          (\<lambda>p (a :: unit) s. (Inl (Exc (Exception ValueError ''boom'' ''(boom,)'')), s)) ()
          (stub_world (Some ''abcdefghijklmnopqrstuv'')))
     = Inl (Exc (Exception ValueError ''boom'' ''(boom,)'')) \<and>
   write_calls (trace (snd (cloud_wrapper (stub_env (Inr ''ok'') (''[]'', PList []))
          (\<lambda>r :: int. PNone) False
          (\<lambda>p (a :: unit) s. (Inl (Exc (Exception ValueError ''boom'' ''(boom,)'')), s)) ()
          (stub_world (Some ''abcdefghijklmnopqrstuv'')))))
     = [(Some ''1b4e28ba-2fa1-4d3b-a3f5-ef19b5a7633b'', Some ''started'', None, None, PNone),
        (Some ''1b4e28ba-2fa1-4d3b-a3f5-ef19b5a7633b'', Some ''error'', Some ''(boom,)'', None, PNone)] \<and>
   sent_requests (trace (snd (cloud_wrapper (stub_env (Inr ''ok'') (''[]'', PList []))
          (\<lambda>r :: int. PNone) False
          (\<lambda>p (a :: unit) s. (Inl (Exc (Exception ValueError ''boom'' ''(boom,)'')), s)) ()
          (stub_world (Some ''abcdefghijklmnopqrstuv'')))))
     = [Request POST PIPELINES_RESOURCE (Some ''{...}'')
          [(''Content-type'', HStr ''application/json''), (''api_key'', HStr ''abcdefghijklmnopqrstuv'')],
        Request POST PIPELINES_RESOURCE (Some ''{...}'')
          [(''Content-type'', HStr ''application/json''), (''api_key'', HStr ''abcdefghijklmnopqrstuv'')]]"
proof -
  let ?E = "stub_env (Inr ''ok'') (''[]'', PList [])"
  let ?W = "stub_world (Some ''abcdefghijklmnopqrstuv'') :: int world"
  let ?pd = "\<lambda>r :: int. (PNone :: int pyval)"
  let ?x = "Exception ValueError ''boom'' ''(boom,)''"
  let ?f = "\<lambda>(p :: (string \<times> int pyval) list option) (a :: unit) (s :: int world).
              (Inl (Exc (Exception ValueError ''boom'' ''(boom,)'')) :: base_exception + int, s)"
  let ?req = "Request POST PIPELINES_RESOURCE (Some ''{...}'')
                [(''Content-type'', HStr ''application/json''), (''api_key'', HStr ''abcdefghijklmnopqrstuv'')]"
  have h: "?f (if False then Some [] else None) () (before_call ?E ?W)
             = (Inl (Exc ?x), before_call ?E ?W)"
    by simp
  have u: "uuid4 ?E (trace ?W) = ''1b4e28ba-2fa1-4d3b-a3f5-ef19b5a7633b''"
    by (simp add: stub_env_def)
  have t: "write_calls (trace ?W) = []"
    by (simp add: stub_world_def)
  have k2: "truthy_str (get_key (before_call ?E ?W)) = Some ''abcdefghijklmnopqrstuv''"
    by (simp add: before_call_def logged_write_def private_write_pipeline_def
                  write_pipeline_try_def warn_on_error_def emit_def get_key_def
                  read_conf_file_def stub_env_def stub_world_def Let_def sublist_code)
  have b: "sent_requests (trace (before_call ?E ?W)) = [?req] \<and>
           headers (before_call ?E ?W)
             = [(''Content-type'', HStr ''application/json''), (''api_key'', HStr ''abcdefghijklmnopqrstuv'')]"
    by (simp add: before_call_def logged_write_def private_write_pipeline_def
                  write_pipeline_try_def warn_on_error_def emit_def get_key_def
                  read_conf_file_def stub_env_def stub_world_def initial_headers_def Let_def
                  sublist_code)
  have d: "dumps ?E (PDict (write_body ''1b4e28ba-2fa1-4d3b-a3f5-ef19b5a7633b'' ''error'' (Some (str_args ?x)) None PNone))
             = Inr ''{...}''"
    by (simp add: stub_env_def)
  have n: "''1b4e28ba-2fa1-4d3b-a3f5-ef19b5a7633b'' \<noteq> []"
    by simp
  note w = cloud_wrapper_raises [of ?f False "()" ?E ?W "Exc ?x" "before_call ?E ?W" ?pd,
      unfolded Let_def u base_exception.case, OF h]
  from w have r: "fst (cloud_wrapper ?E ?pd False ?f () ?W) = Inl (Exc ?x)"
    by blast
  from w t have c: "write_calls (trace (snd (cloud_wrapper ?E ?pd False ?f () ?W)))
      = [(Some ''1b4e28ba-2fa1-4d3b-a3f5-ef19b5a7633b'', Some ''started'', None, None, PNone),
         (Some ''1b4e28ba-2fa1-4d3b-a3f5-ef19b5a7633b'', Some ''error'', Some ''(boom,)'', None, PNone)]"
    by simp
  from w k2 n d have "sent_requests (trace (snd (cloud_wrapper ?E ?pd False ?f () ?W)))
      = sent_requests (trace (before_call ?E ?W)) @
          [Request POST PIPELINES_RESOURCE (Some ''{...}'')
             (AList.update ''api_key'' (HStr ''abcdefghijklmnopqrstuv'') (headers (before_call ?E ?W)))]"
    by blast
  then have q: "sent_requests (trace (snd (cloud_wrapper ?E ?pd False ?f () ?W))) = [?req, ?req]"
    using b by simp
  from r c q show ?thesis by simp
qed

text \<open>
  C2 as stated fails: a wrapped function that calls \<^verbatim>\<open>sys.exit(1)\<close> raises
  \<^verbatim>\<open>SystemExit\<close>; the wrapper lets it through, the only entry into
  \<^verbatim>\<open>_write_pipeline\<close> is the \<^verbatim>\<open>started\<close> one and the only request sent is its POST.
\<close>

theorem system_exit_counterexample:
  "fst (cloud_wrapper (stub_env (Inr ''ok'') (''[]'', PList []))
          (\<lambda>r :: int. PNone) False
          (\<lambda>p (a :: unit) s. (Inl (SystemExit ''1''), s)) ()
          (stub_world (Some ''abcdefghijklmnopqrstuv'')))
     = Inl (SystemExit ''1'') \<and>
   write_calls (trace (snd (cloud_wrapper (stub_env (Inr ''ok'') (''[]'', PList []))
          (\<lambda>r :: int. PNone) False
          (\<lambda>p (a :: unit) s. (Inl (SystemExit ''1''), s)) ()
          (stub_world (Some ''abcdefghijklmnopqrstuv'')))))
     = [(Some ''1b4e28ba-2fa1-4d3b-a3f5-ef19b5a7633b'', Some ''started'', None, None, PNone)] \<and>
   sent_requests (trace (snd (cloud_wrapper (stub_env (Inr ''ok'') (''[]'', PList []))
          (\<lambda>r :: int. PNone) False
          (\<lambda>p (a :: unit) s. (Inl (SystemExit ''1''), s)) ()
          (stub_world (Some ''abcdefghijklmnopqrstuv'')))))
     = [Request POST PIPELINES_RESOURCE (Some ''{...}'')
          [(''Content-type'', HStr ''application/json''), (''api_key'', HStr ''abcdefghijklmnopqrstuv'')]]"
  by (simp add: cloud_wrapper_def logged_write_def private_write_pipeline_def
                write_pipeline_try_def warn_on_error_def emit_def get_key_def read_conf_file_def
                stub_env_def stub_world_def initial_headers_def Let_def sublist_code)

section \<open>The shared headers dictionary\<close>

lemma conf_write_pipeline_try:
  "conf (snd (write_pipeline_try env k pid st log pipeline_name dag s)) = conf s"
  unfolding write_pipeline_try_cases by (simp add: conf_emit split: sum.splits)

lemma headers_write_pipeline_try:
  "headers (snd (write_pipeline_try env k pid st log pipeline_name dag s))
     = AList.update ''api_key'' (HStr k) (headers s)"
  unfolding write_pipeline_try_cases by (simp add: headers_emit split: sum.splits)

lemma delete_pipeline_valid:
  assumes "truthy_str (get_key s) = Some k" and "truthy_str pipeline_id = Some pid"
  shows "snd (delete_pipeline env pipeline_id s) =
           emit Closed (snd (delete_pipeline_try env k pid (emit (Connect CLOUD_APP_URL 3) s)))"
  using assms truthy_str_Some [OF assms(1)]
  by (simp add: delete_pipeline_def Let_def split: prod.splits)

lemma delete_pipeline_invalid:
  assumes "truthy_str (get_key s) = None \<or> truthy_str pipeline_id = None"
  shows "snd (delete_pipeline env pipeline_id s) = s"
  using assms by (auto simp: delete_pipeline_def Let_def split: option.splits)

lemma headers_delete_pipeline_try:
  "headers (snd (delete_pipeline_try env k pid s))
     = AList.update ''pipeline_id'' (HStr pid) (AList.update ''api_key'' (HStr k) (headers s))"
  by (simp add: delete_pipeline_try_def Let_def headers_emit split: sum.splits)

lemma conf_delete_pipeline_try: "conf (snd (delete_pipeline_try env k pid s)) = conf s"
  by (simp add: delete_pipeline_try_def Let_def conf_emit split: sum.splits)

lemma run_call_conf:
  "conf (run_call env c s) = conf s \<or>
   (\<exists>k. k \<noteq> [] \<and> conf (run_call env c s) = AList.update ''cloud_key'' k (conf s))"
proof (cases c)
  case Call_get_key
  then show ?thesis by simp
next
  case (Call_set_key uk)
  then show ?thesis
    by (auto simp: set_key_def private_set_key_def update_conf_file_def conf_emit
             split: option.splits dest: truthy_str_Some)
next
  case (Call_get_pipeline p v)
  show ?thesis
  proof (cases "truthy_str (get_key s)")
    case None
    then show ?thesis using Call_get_pipeline by (simp add: get_pipeline_def)
  next
    case (Some k)
    show ?thesis
      unfolding Call_get_pipeline run_call.simps get_pipeline_valid [OF Some] get_pipeline_try_def
      by (simp add: Let_def conf_emit split: sum.splits)
  qed
next
  case (Call_write_pipeline p st l n d)
  show ?thesis
  proof (cases "\<exists>k pid s'. truthy_str (get_key s) = Some k \<and> truthy_str p = Some pid \<and>
                   truthy_str st = Some s'")
    case True
    then obtain k pid s' where v: "truthy_str (get_key s) = Some k" "truthy_str p = Some pid"
        "truthy_str st = Some s'"
      by blast
    show ?thesis
      unfolding Call_write_pipeline run_call.simps write_pipeline_def
                private_write_pipeline_valid [OF v]
      by (simp add: Let_def conf_emit conf_write_pipeline_try)
  next
    case False
    then have "truthy_str (get_key s) = None \<or> truthy_str p = None \<or> truthy_str st = None"
      by auto
    then show ?thesis
      unfolding Call_write_pipeline run_call.simps write_pipeline_def
      by (simp add: private_write_pipeline_invalid conf_emit)
  qed
next
  case (Call_delete_pipeline p)
  show ?thesis
  proof (cases "\<exists>k pid. truthy_str (get_key s) = Some k \<and> truthy_str p = Some pid")
    case True
    then obtain k pid where v: "truthy_str (get_key s) = Some k" "truthy_str p = Some pid"
      by blast
    show ?thesis
      unfolding Call_delete_pipeline run_call.simps delete_pipeline_valid [OF v]
      by (simp add: conf_emit conf_delete_pipeline_try)
  next
    case False
    then have "truthy_str (get_key s) = None \<or> truthy_str p = None" by auto
    then show ?thesis
      unfolding Call_delete_pipeline run_call.simps
      by (simp add: delete_pipeline_invalid)
  qed
qed

lemma run_call_key:
  assumes "truthy_str (get_key s) \<noteq> None"
  shows "truthy_str (get_key (run_call env c s)) \<noteq> None"
  using run_call_conf [of env c s] assms
  by (auto simp: get_key_def read_conf_file_def update_conv')

lemma run_calls_key:
  "truthy_str (get_key s) \<noteq> None \<Longrightarrow> truthy_str (get_key (run_calls env cs s)) \<noteq> None"
proof (induction cs arbitrary: s)
  case Nil
  then show ?case by (simp add: run_calls_def)
next
  case (Cons c cs)
  from Cons.IH [OF run_call_key [OF Cons.prems]] show ?case
    by (simp add: run_calls_def)
qed


lemma headers_get_pipeline: "headers (snd (get_pipeline env p v s)) = headers s"
proof (cases "truthy_str (get_key s)")
  case None
  then show ?thesis by (simp add: get_pipeline_def)
next
  case (Some k)
  show ?thesis
    unfolding get_pipeline_valid [OF Some] get_pipeline_try_def
    by (simp add: Let_def headers_emit split: sum.splits)
qed

lemma headers_set_key: "headers (set_key k s) = headers s"
  by (simp add: set_key_def private_set_key_def update_conf_file_def headers_emit
           split: option.splits)

lemma headers_write_pipeline:
  "headers (snd (write_pipeline env p st l n d s)) = headers s \<or>
   (\<exists>k. headers (snd (write_pipeline env p st l n d s))
          = AList.update ''api_key'' (HStr k) (headers s))"
proof (cases "\<exists>k pid s'. truthy_str (get_key s) = Some k \<and> truthy_str p = Some pid \<and>
                 truthy_str st = Some s'")
  case True
  then obtain k pid s' where v: "truthy_str (get_key s) = Some k" "truthy_str p = Some pid"
      "truthy_str st = Some s'"
    by blast
  show ?thesis
    unfolding write_pipeline_def private_write_pipeline_valid [OF v]
    by (auto simp: Let_def headers_emit headers_write_pipeline_try)
next
  case False
  then have "truthy_str (get_key s) = None \<or> truthy_str p = None \<or> truthy_str st = None"
    by auto
  then show ?thesis
    unfolding write_pipeline_def
    by (simp add: private_write_pipeline_invalid headers_emit)
qed

lemma headers_delete_pipeline:
  "headers (snd (delete_pipeline env p s)) = headers s \<or>
   (\<exists>k pid. headers (snd (delete_pipeline env p s))
          = AList.update ''pipeline_id'' (HStr pid)
              (AList.update ''api_key'' (HStr k) (headers s)))"
proof (cases "\<exists>k pid. truthy_str (get_key s) = Some k \<and> truthy_str p = Some pid")
  case True
  then obtain k pid where v: "truthy_str (get_key s) = Some k" "truthy_str p = Some pid"
    by blast
  show ?thesis
    unfolding delete_pipeline_valid [OF v]
    by (auto simp: headers_emit headers_delete_pipeline_try)
next
  case False
  then have "truthy_str (get_key s) = None \<or> truthy_str p = None" by auto
  then show ?thesis by (simp add: delete_pipeline_invalid)
qed

lemma run_call_pipeline_id:
  assumes "\<not> is_delete c"
  shows "map_of (headers (run_call env c s)) ''pipeline_id'' = map_of (headers s) ''pipeline_id''"
proof (cases c)
  case (Call_write_pipeline p st l n d)
  then show ?thesis
    using headers_write_pipeline [of env p st l n d s]
    by (auto simp: update_conv')
qed (use assms in \<open>simp_all add: headers_get_pipeline headers_set_key\<close>)

lemma run_call_pipeline_id_kept:
  assumes "map_of (headers s) ''pipeline_id'' \<noteq> None"
  shows "map_of (headers (run_call env c s)) ''pipeline_id'' \<noteq> None"
proof (cases "is_delete c")
  case False
  then show ?thesis using assms by (simp add: run_call_pipeline_id)
next
  case True
  then obtain p where c: "c = Call_delete_pipeline p" by (cases c) simp_all
  show ?thesis
    using headers_delete_pipeline [of env p s] assms
    unfolding c by (auto simp: update_conv')
qed

lemma run_calls_pipeline_id:
  "\<not> list_ex is_delete cs \<Longrightarrow>
     map_of (headers (run_calls env cs s)) ''pipeline_id'' = map_of (headers s) ''pipeline_id''"
  by (induction cs arbitrary: s) (simp_all add: run_calls_def run_call_pipeline_id)

lemma run_calls_pipeline_id_kept:
  "map_of (headers s) ''pipeline_id'' \<noteq> None \<Longrightarrow>
     map_of (headers (run_calls env cs s)) ''pipeline_id'' \<noteq> None"
proof (induction cs arbitrary: s)
  case Nil
  then show ?case by (simp add: run_calls_def)
next
  case (Cons c cs)
  from Cons.IH [OF run_call_pipeline_id_kept [OF Cons.prems]] show ?case
    by (simp add: run_calls_def)
qed

lemma write_pipeline_sent:
  assumes "truthy_str (get_key s) = Some k" and "truthy_str p = Some pid"
      and "truthy_str st = Some s'"
      and "dumps env (PDict (write_body pid s' l n d)) = Inr txt"
  shows "sent_requests (trace (snd (write_pipeline env p st l n d s)))
           = sent_requests (trace s) @
             [Request POST PIPELINES_RESOURCE (Some txt)
                (AList.update ''api_key'' (HStr k) (headers s))]"
  unfolding write_pipeline_def private_write_pipeline_valid [OF assms(1-3)]
            write_pipeline_try_cases
  using assms(4)
  by (simp add: Let_def trace_emit headers_emit sent_requests_append split: sum.splits)

text \<open>
  C9. A call of \<^verbatim>\<open>delete_pipeline\<close> that passes validation stores its
  \<^verbatim>\<open>pipeline_id\<close> in the module-level \<^verbatim>\<open>headers\<close>. No function of the module
  removes the entry: after any sequence of calls into the module it is still there,
  and it still holds the same identifier unless a later \<^verbatim>\<open>delete_pipeline\<close> has
  overwritten it. Every request that a later \<^verbatim>\<open>write_pipeline\<close> sends therefore
  carries a \<^verbatim>\<open>pipeline_id\<close> header left behind by a deletion.
\<close>

theorem stale_pipeline_id_header:
  assumes key: "truthy_str (get_key s) = Some k"
      and pid: "truthy_str pipeline_id = Some pid"
  shows "let s1 = snd (delete_pipeline env pipeline_id s);
             s2 = run_calls env cs s1;
             s3 = snd (write_pipeline env wid status log pipeline_name dag s2)
         in map_of (headers s1) ''pipeline_id'' = Some (HStr pid) \<and>
            map_of (headers s2) ''pipeline_id'' \<noteq> None \<and>
            (\<not> list_ex is_delete cs \<longrightarrow> map_of (headers s2) ''pipeline_id'' = Some (HStr pid)) \<and>
            (\<forall>w st body.
               truthy_str wid = Some w \<and> truthy_str status = Some st \<and>
               dumps env (PDict (write_body w st log pipeline_name dag)) = Inr body \<longrightarrow>
               (\<exists>hdrs. sent_requests (trace s3) =
                         sent_requests (trace s2) @
                           [Request POST PIPELINES_RESOURCE (Some body) hdrs] \<and>
                       map_of hdrs ''pipeline_id'' = map_of (headers s2) ''pipeline_id''))"
proof -
  let ?s1 = "snd (delete_pipeline env pipeline_id s)"
  let ?s2 = "run_calls env cs ?s1"
  let ?s3 = "snd (write_pipeline env wid status log pipeline_name dag ?s2)"
  have h1: "map_of (headers ?s1) ''pipeline_id'' = Some (HStr pid)"
    unfolding delete_pipeline_valid [OF key pid]
    by (simp add: headers_emit headers_delete_pipeline_try update_conv')
  then have h2: "map_of (headers ?s2) ''pipeline_id'' \<noteq> None"
    by (simp add: run_calls_pipeline_id_kept)
  have k1: "truthy_str (get_key ?s1) \<noteq> None"
    unfolding delete_pipeline_valid [OF key pid]
    using key
    by (simp add: get_key_def read_conf_file_def conf_emit conf_delete_pipeline_try)
  then have "truthy_str (get_key ?s2) \<noteq> None"
    by (rule run_calls_key)
  then obtain k2 where k2: "truthy_str (get_key ?s2) = Some k2"
    by blast
  have h3: "map_of (headers ?s2) ''pipeline_id'' = Some (HStr pid)"
    if nd: "\<not> list_ex is_delete cs"
    using run_calls_pipeline_id [OF nd, of env ?s1] h1 by simp
  have h4: "\<exists>hdrs. sent_requests (trace ?s3) =
                     sent_requests (trace ?s2) @
                       [Request POST PIPELINES_RESOURCE (Some body) hdrs] \<and>
                   map_of hdrs ''pipeline_id'' = map_of (headers ?s2) ''pipeline_id''"
    if w: "truthy_str wid = Some w" and st: "truthy_str status = Some st"
      and d: "dumps env (PDict (write_body w st log pipeline_name dag)) = Inr body"
    for w st body
    using write_pipeline_sent [OF k2 w st d]
    by (simp add: update_conv')
  from h1 h2 h3 h4 show ?thesis
    unfolding Let_def by blast
qed

theorem stale_pipeline_id_header_witness:
  "truthy_str (get_key (stub_world (Some ''abcdefghijklmnopqrstuv'') :: int world)) = Some ''abcdefghijklmnopqrstuv'' \<and>
   truthy_str (Some ''p1'') = Some ''p1'' \<and>
   \<not> list_ex is_delete [Call_get_pipeline None None, Call_set_key (Some ''short'') :: int api_call] \<and>
   map_of (headers (snd (delete_pipeline (stub_env (Inr ''ok'') (''[]'', PList [])) (Some ''p1'')
                           (stub_world (Some ''abcdefghijklmnopqrstuv''))))) ''pipeline_id''
     = Some (HStr ''p1'') \<and>
   map_of (headers (run_calls (stub_env (Inr ''ok'') (''[]'', PList []))
                      [Call_get_pipeline None None, Call_set_key (Some ''short'')]
                      (snd (delete_pipeline (stub_env (Inr ''ok'') (''[]'', PList [])) (Some ''p1'')
                              (stub_world (Some ''abcdefghijklmnopqrstuv'')))))) ''pipeline_id''
     = Some (HStr ''p1'') \<and>
   (\<exists>hdrs.
      sent_requests (trace (snd (write_pipeline (stub_env (Inr ''ok'') (''[]'', PList []))
         (Some ''p2'') (Some ''started'') None None PNone
         (run_calls (stub_env (Inr ''ok'') (''[]'', PList []))
            [Call_get_pipeline None None, Call_set_key (Some ''short'')]
            (snd (delete_pipeline (stub_env (Inr ''ok'') (''[]'', PList [])) (Some ''p1'')
                    (stub_world (Some ''abcdefghijklmnopqrstuv''))))))))
        = sent_requests (trace (run_calls (stub_env (Inr ''ok'') (''[]'', PList []))
            [Call_get_pipeline None None, Call_set_key (Some ''short'')]
            (snd (delete_pipeline (stub_env (Inr ''ok'') (''[]'', PList [])) (Some ''p1'')
                    (stub_world (Some ''abcdefghijklmnopqrstuv''))))))
          @ [Request POST PIPELINES_RESOURCE (Some ''{...}'') hdrs] \<and>
      map_of hdrs ''pipeline_id'' = Some (HStr ''p1''))"
proof -
  let ?E = "stub_env (Inr ''ok'') (''[]'', PList [])"
  let ?W = "stub_world (Some ''abcdefghijklmnopqrstuv'') :: int world"
  let ?cs = "[Call_get_pipeline None None, Call_set_key (Some ''short'') :: int api_call]"
  have h1: "truthy_str (get_key ?W) = Some ''abcdefghijklmnopqrstuv''"
    by (simp add: stub_world_def get_key_def read_conf_file_def)
  have h2: "truthy_str (Some ''p1'') = Some ''p1''"
    by simp
  have h3: "\<not> list_ex is_delete ?cs"
    by simp
  have h4: "truthy_str (Some ''p2'') = Some ''p2''" "truthy_str (Some ''started'') = Some ''started''"
    by simp_all
  have h5: "dumps ?E (PDict (write_body ''p2'' ''started'' None None PNone)) = Inr ''{...}''"
    by (simp add: stub_env_def)
  note w = stale_pipeline_id_header [OF h1 h2, of ?E ?cs "Some ''p2''" "Some ''started''" None None
      PNone, unfolded Let_def]
  from w h3 h4 h5 h1 h2 show ?thesis
    by metis
qed

end
